theory Spec2Isabelle
  imports Complex_Main "HOL-Library.Word" "HOL-Library.Sublist"
begin

section \<open>Data model\<close>

text \<open>
  A \<open>Buffer\<close> (and a \<open>Uint8Array\<close>) is a list of bytes.  JavaScript numbers that
  the caller hands in (amounts, heights, the auth token) are integers of either sign;
  lengths are natural numbers.
\<close>

type_synonym byte = "8 word"
type_synonym Buffer = "byte list"

text \<open>The errors the driver can end with: every \<open>throw\<close> of the source is a value.\<close>

datatype Error =
    DeviceError nat          \<comment> \<open>the device answered with a status other than success\<close>
  | ChangePathNotPresent     \<comment> \<open>\<open>new Error("change path is not present")\<close>\<close>
  | RangeError               \<comment> \<open>a fixed-width encoder was given a number it cannot hold\<close>
  | InvalidPath              \<comment> \<open>the path string could not be parsed\<close>
  | InvalidPathLength nat    \<comment> \<open>\<open>Invalid path length\<close>, with the length\<close>
  | InvalidChangePath nat    \<comment> \<open>\<open>Invalid change path\<close>, with the component\<close>

datatype COMMAND = DERIVE_ADDRESS | SIGN_TX

text \<open>
  One call \<open>device.send(command, p1, p2, data)\<close>.  \<open>p2\<close> is \<open>None\<close> when the
  source passes \<open>undefined\<close> (the session id read from an empty response).
\<close>

record APDU =
  ins :: COMMAND
  p1 :: nat
  p2 :: "nat option"
  payload :: Buffer

record DeviceResponse =
  returnCode :: nat
  data :: Buffer

text \<open>
  The device behind the command channel: its answer to the last command of a history of
  commands, and the largest payload one command carries (\<open>sendData\<close> slices by it).
\<close>

record Device =
  reply :: "APDU list \<Rightarrow> DeviceResponse"
  MAX_DATA_LENGTH :: nat

text \<open>
  Functions of other packages that the driver calls: the parser and encoder of a BIP32
  path string, and \<open>ErgoAddress.fromErgoTree(tree).toString()\<close> of the address library.
\<close>

record Externals =
  bip32Path :: "string \<Rightarrow> Error + Buffer"
  fromErgoTree :: "string \<Rightarrow> string"

record Token =
  tokenId :: string
  amount :: int

record BoxCandidate =
  boxValue :: int
  ergoTree :: Buffer
  creationHeight :: int
  tokens :: "Token list"
  registers :: Buffer

record AttestedBoxFrame =
  buffer :: Buffer

record AttestedBox =
  frames :: "AttestedBoxFrame list"
  extension :: "Buffer option"

text \<open>
  \<open>signTx.ts\<close> reads \<open>changeMap.path\<close> as an optional string, the variant of
  \<open>signTx\<close> in \<open>erg.ts\<close> as a string: the type of the path is a parameter.
\<close>

record 'p ChangeMap =
  address :: string
  path :: 'p

record 'p AttestedTx =
  inputs :: "AttestedBox list"
  dataInputs :: "string list"
  outputs :: "BoxCandidate list"
  distinctTokenIds :: "Buffer list"
  changeMap :: "'p ChangeMap"

section \<open>Asynchronous code as state passing\<close>

text \<open>
  The state is the list of commands sent so far, oldest first.  A computation returns
  a value or the error it threw, and the commands sent up to that point.
\<close>

type_synonym 'a io = "APDU list \<Rightarrow> (Error + 'a) \<times> APDU list"

definition ret :: "'a \<Rightarrow> 'a io" where
  "ret x = (\<lambda>tr. (Inr x, tr))"

definition throw :: "Error \<Rightarrow> 'a io" where
  "throw e = (\<lambda>tr. (Inl e, tr))"

definition lift :: "Error + 'a \<Rightarrow> 'a io" where
  "lift r = (case r of Inl e \<Rightarrow> throw e | Inr x \<Rightarrow> ret x)"

definition await :: "'a io \<Rightarrow> ('a \<Rightarrow> 'b io) \<Rightarrow> 'b io" where
  "await m f = (\<lambda>tr. case m tr of (Inl e, tr') \<Rightarrow> (Inl e, tr') | (Inr x, tr') \<Rightarrow> f x tr')"

text \<open>\<open>for (const x of xs) { await body(x) }\<close>\<close>

primrec forOf :: "'a list \<Rightarrow> ('a \<Rightarrow> unit io) \<Rightarrow> unit io" where
  "forOf [] body = ret ()"
| "forOf (x # xs) body = await (body x) (\<lambda>_. forOf xs body)"

text \<open>The commands a computation adds to the history \<open>tr\<close>.\<close>

definition sent :: "'a io \<Rightarrow> APDU list \<Rightarrow> APDU list" where
  "sent m tr = drop (length tr) (snd (m tr))"

definition outcome :: "'a io \<Rightarrow> APDU list \<Rightarrow> Error + 'a" where
  "outcome m tr = fst (m tr)"

section \<open>Binary codec\<close>

definition RETURN_CODE_OK :: nat where
  "RETURN_CODE_OK = 0x9000"

text \<open>
  Modelled from the spec: the \<open>Serialize\<close> and \<open>Deserialize\<close> classes are not among the
  sources.  A fixed-width integer is encoded big-endian in \<open>k\<close> bytes; a number that the
  width cannot hold (as the index -1 of a token that is not in the table) is a malformed
  input.
\<close>

definition bigEndian :: "nat \<Rightarrow> int \<Rightarrow> Buffer" where
  "bigEndian k v = map (\<lambda>i. word_of_int (v div 256 ^ i)) (rev [0..<k])"

definition uintBE :: "nat \<Rightarrow> int \<Rightarrow> Error + Buffer" where
  "uintBE k v = (if 0 \<le> v \<and> v < 2 ^ (8 * k) then Inr (bigEndian k v) else Inl RangeError)"

definition Serialize_uint8 :: "int \<Rightarrow> Error + Buffer" where
  "Serialize_uint8 v = uintBE 1 v"

definition Serialize_uint16 :: "int \<Rightarrow> Error + Buffer" where
  "Serialize_uint16 v = uintBE 2 v"

definition Serialize_uint32 :: "int \<Rightarrow> Error + Buffer" where
  "Serialize_uint32 v = uintBE 4 v"

definition Serialize_uint64 :: "int \<Rightarrow> Error + Buffer" where
  "Serialize_uint64 v = uintBE 8 v"

text \<open>
  Modelled from the spec: \<open>Deserialize.hex\<close> is not among the sources.  Hex encoding is
  lowercase, two digits a byte.
\<close>

definition hexDigit :: "nat \<Rightarrow> char" where
  "hexDigit d = ''0123456789abcdef'' ! (d mod 16)"

definition Deserialize_hex :: "Buffer \<Rightarrow> string" where
  "Deserialize_hex bs = concat (map (\<lambda>b. [hexDigit (unat b div 16), hexDigit (unat b mod 16)]) bs)"

text \<open>
  Modelled from the spec: \<open>Serialize.hex\<close> is not among the sources.  Decoding reads
  two digits a byte, in either case; the spec calls input that is not hex a caller
  error and says no more, and here decoding stops at the first pair that is not hex.
\<close>

definition hexValue :: "char \<Rightarrow> nat option" where
  "hexValue c =
     (let n = of_char c :: nat in
      if 48 \<le> n \<and> n \<le> 57 then Some (n - 48)
      else if 97 \<le> n \<and> n \<le> 102 then Some (n - 87)
      else if 65 \<le> n \<and> n \<le> 70 then Some (n - 55)
      else None)"

fun Serialize_hex :: "string \<Rightarrow> Buffer" where
  "Serialize_hex (a # b # cs) =
     (case (hexValue a, hexValue b) of
        (Some h, Some l) \<Rightarrow> word_of_nat (16 * h + l) # Serialize_hex cs
      | _ \<Rightarrow> [])"
| "Serialize_hex _ = []"

text \<open>
  Modelled from the spec: \<open>Serialize.array\<close> and the count-bounded packetizer
  (\<open>Serialize.arrayAndChunk\<close>, \<open>serialize.arrayAsMappedChunks\<close> in \<open>erg.ts\<close>) are not
  among the sources.  The packetizer groups the items into batches of at most \<open>maxSize\<close>
  items, in order, and concatenates the encoded items of a batch into one packet.
\<close>

function chunked :: "nat \<Rightarrow> 'a list \<Rightarrow> 'a list list" where
  "chunked n xs = (if n = 0 \<or> xs = [] then [] else take n xs # chunked n (drop n xs))"
  by pat_completeness auto
termination
  by (relation "measure (\<lambda>(n, xs). length xs)") auto

declare chunked.simps [simp del]

primrec Buffer_concat :: "(Error + Buffer) list \<Rightarrow> Error + Buffer" where
  "Buffer_concat [] = Inr []"
| "Buffer_concat (p # ps) =
     (case p of Inl e \<Rightarrow> Inl e
      | Inr b \<Rightarrow> (case Buffer_concat ps of Inl e \<Rightarrow> Inl e | Inr bs \<Rightarrow> Inr (b @ bs)))"

definition Serialize_array :: "'a list \<Rightarrow> ('a \<Rightarrow> Error + Buffer) \<Rightarrow> Error + Buffer" where
  "Serialize_array items encode = Buffer_concat (map encode items)"

definition arrayAndChunk :: "'a list \<Rightarrow> nat \<Rightarrow> ('a \<Rightarrow> Buffer) \<Rightarrow> Buffer list" where
  "arrayAndChunk items maxSize encode = map (\<lambda>batch. concat (map encode batch)) (chunked maxSize items)"

section \<open>Command channel\<close>

text \<open>
  Modelled from the spec: the \<open>Device\<close> class is not among the sources.  \<open>send\<close> is one
  exchange; a status other than success is a rejection that carries the raw code.
  \<open>sendData\<close> slices a long payload into pieces of at most \<open>MAX_DATA_LENGTH\<close> bytes,
  sends one command a slice and returns the last slice's response.
\<close>

definition apdu :: "COMMAND \<Rightarrow> nat \<Rightarrow> nat option \<Rightarrow> Buffer \<Rightarrow> APDU" where
  "apdu c a b d = \<lparr>ins = c, p1 = a, p2 = b, payload = d\<rparr>"

definition Device_send :: "Device \<Rightarrow> COMMAND \<Rightarrow> nat \<Rightarrow> nat option \<Rightarrow> Buffer \<Rightarrow> DeviceResponse io" where
  "Device_send device c a b d =
     (\<lambda>tr. let tr' = tr @ [apdu c a b d];
                response = reply device tr'
            in if returnCode response = RETURN_CODE_OK then (Inr response, tr')
               else (Inl (DeviceError (returnCode response)), tr'))"

primrec sendSlices :: "Device \<Rightarrow> COMMAND \<Rightarrow> nat \<Rightarrow> nat option \<Rightarrow> Buffer list \<Rightarrow> DeviceResponse option
    \<Rightarrow> DeviceResponse option io" where
  "sendSlices device c a b [] prev = ret prev"
| "sendSlices device c a b (s # ss) prev =
     await (Device_send device c a b s) (\<lambda>response. sendSlices device c a b ss (Some response))"

definition Device_sendData :: "Device \<Rightarrow> COMMAND \<Rightarrow> nat \<Rightarrow> nat option \<Rightarrow> Buffer \<Rightarrow> DeviceResponse option io" where
  "Device_sendData device c a b d =
     sendSlices device c a b (chunked (MAX_DATA_LENGTH device) d) None"

section \<open>The signing session of \<open>interactions/signTx.ts\<close>\<close>

definition MAINNET_MINER_FEE_TREE :: string where
  "MAINNET_MINER_FEE_TREE =
     ''1005040004000e36100204a00b08cd0279be667ef9dcbbac55a06295ce870b07029bfcdb2dce28d959f2815b16f81798ea02d192a39a8cc7a701730073011001020402d19683030193a38cc7b2a57300000193c2b2a57301007473027303830108cdeeac93b1a57304''"

definition TESTNET_FEE_TREE :: string where
  "TESTNET_FEE_TREE =
     ''1005040004000e36100204900108cd0279be667ef9dcbbac55a06295ce870b07029bfcdb2dce28d959f2815b16f81798ea02d192a39a8cc7a701730073011001020402d19683030193a38cc7b2a57300000193c2b2a57301007473027303830108cdeeac93b1a57304''"

definition P1_START_SIGNING :: nat where "P1_START_SIGNING = 0x01"
definition P1_START_TRANSACTION :: nat where "P1_START_TRANSACTION = 0x10"
definition P1_ADD_TOKEN_IDS :: nat where "P1_ADD_TOKEN_IDS = 0x11"
definition P1_ADD_INPUT_BOX_FRAME :: nat where "P1_ADD_INPUT_BOX_FRAME = 0x12"
definition P1_ADD_INPUT_BOX_CONTEXT_EXTENSION_CHUNK :: nat where
  "P1_ADD_INPUT_BOX_CONTEXT_EXTENSION_CHUNK = 0x13"
definition P1_ADD_DATA_INPUTS :: nat where "P1_ADD_DATA_INPUTS = 0x14"
definition P1_ADD_OUTPUT_BOX_START :: nat where "P1_ADD_OUTPUT_BOX_START = 0x15"
definition P1_ADD_OUTPUT_BOX_ERGO_TREE_CHUNK :: nat where "P1_ADD_OUTPUT_BOX_ERGO_TREE_CHUNK = 0x16"
definition P1_ADD_OUTPUT_BOX_MINERS_FEE_TREE :: nat where "P1_ADD_OUTPUT_BOX_MINERS_FEE_TREE = 0x17"
definition P1_ADD_OUTPUT_BOX_CHANGE_TREE :: nat where "P1_ADD_OUTPUT_BOX_CHANGE_TREE = 0x18"
definition P1_ADD_OUTPUT_BOX_TOKENS :: nat where "P1_ADD_OUTPUT_BOX_TOKENS = 0x19"
definition P1_ADD_OUTPUT_BOX_REGISTERS_CHUNK :: nat where "P1_ADD_OUTPUT_BOX_REGISTERS_CHUNK = 0x1a"
definition P1_CONFIRM_AND_SIGN :: nat where "P1_CONFIRM_AND_SIGN = 0x20"

definition P2_WITHOUT_TOKEN :: nat where "P2_WITHOUT_TOKEN = 0x01"
definition P2_WITH_TOKEN :: nat where "P2_WITH_TOKEN = 0x02"

text \<open>\<open>authToken ? a : b\<close>: \<open>undefined\<close> and 0 are falsy.\<close>

definition truthy :: "int option \<Rightarrow> bool" where
  "truthy authToken = (case authToken of None \<Rightarrow> False | Some t \<Rightarrow> t \<noteq> 0)"

text \<open>\<open>response.data[0]\<close>: \<open>undefined\<close> when the response carries no data.\<close>

definition firstByte :: "Buffer \<Rightarrow> nat option" where
  "firstByte d = (case d of [] \<Rightarrow> None | b # _ \<Rightarrow> Some (unat b))"

text \<open>\<open>Array.prototype.indexOf\<close>: the first position of the item, or -1.\<close>

primrec indexOf :: "'a list \<Rightarrow> 'a \<Rightarrow> int" where
  "indexOf [] x = - 1"
| "indexOf (y # ys) x =
     (if y = x then 0 else (let i = indexOf ys x in if i < 0 then - 1 else i + 1))"

definition sendHeader :: "Device \<Rightarrow> Externals \<Rightarrow> string \<Rightarrow> int option \<Rightarrow> nat option io" where
  "sendHeader device ext signPath authToken =
     await (lift (Buffer_concat
        [bip32Path ext signPath,
         if truthy authToken then Serialize_uint32 (the authToken) else Inr []])) (\<lambda>d.
     await (Device_send device SIGN_TX P1_START_SIGNING
        (Some (if truthy authToken then P2_WITH_TOKEN else P2_WITHOUT_TOKEN)) d) (\<lambda>response.
     ret (firstByte (data response))))"

definition sendStartTx :: "Device \<Rightarrow> nat option \<Rightarrow> 'p AttestedTx \<Rightarrow> nat \<Rightarrow> nat option io" where
  "sendStartTx device sessionId tx uniqueTokenIdsCount =
     await (lift (Buffer_concat
        [Serialize_uint16 (int (length (inputs tx))),
         Serialize_uint16 (int (length (dataInputs tx))),
         Serialize_uint8 (int uniqueTokenIdsCount),
         Serialize_uint16 (int (length (outputs tx)))])) (\<lambda>d.
     await (Device_send device SIGN_TX P1_START_TRANSACTION sessionId d) (\<lambda>response.
     ret (firstByte (data response))))"

definition MAX_PACKET_SIZE :: nat where
  "MAX_PACKET_SIZE = 7"

definition sendDistinctTokensIds :: "Device \<Rightarrow> nat option \<Rightarrow> Buffer list \<Rightarrow> unit io" where
  "sendDistinctTokensIds device sessionId ids =
     (if length ids = 0 then ret ()
      else
        let packets = arrayAndChunk ids MAX_PACKET_SIZE (\<lambda>i. i) in
        forOf packets (\<lambda>p.
          await (Device_send device SIGN_TX P1_ADD_TOKEN_IDS sessionId p) (\<lambda>_. ret ())))"

definition sendBoxContextExtension :: "Device \<Rightarrow> nat option \<Rightarrow> Buffer \<Rightarrow> unit io" where
  "sendBoxContextExtension device sessionId ext =
     await (Device_sendData device SIGN_TX P1_ADD_INPUT_BOX_CONTEXT_EXTENSION_CHUNK sessionId ext)
       (\<lambda>_. ret ())"

definition sendInputs :: "Device \<Rightarrow> nat option \<Rightarrow> AttestedBox list \<Rightarrow> unit io" where
  "sendInputs device sessionId inputBoxes =
     forOf inputBoxes (\<lambda>box.
       await (forOf (frames box) (\<lambda>frame.
         await (Device_send device SIGN_TX P1_ADD_INPUT_BOX_FRAME sessionId (buffer frame))
           (\<lambda>_. ret ()))) (\<lambda>_.
       if extension box \<noteq> None \<and> length (the (extension box)) > 0
       then sendBoxContextExtension device sessionId (the (extension box))
       else ret ()))"

definition sendDataInputs :: "Device \<Rightarrow> nat option \<Rightarrow> string list \<Rightarrow> unit io" where
  "sendDataInputs device sessionId boxIds =
     (let packets = arrayAndChunk boxIds MAX_PACKET_SIZE (\<lambda>i. Serialize_hex i) in
      forOf packets (\<lambda>p.
        await (Device_send device SIGN_TX P1_ADD_DATA_INPUTS sessionId p) (\<lambda>_. ret ())))"

definition addOutputBoxErgoTree :: "Device \<Rightarrow> nat option \<Rightarrow> Buffer \<Rightarrow> unit io" where
  "addOutputBoxErgoTree device sessionId tree =
     await (Device_sendData device SIGN_TX P1_ADD_OUTPUT_BOX_ERGO_TREE_CHUNK sessionId tree)
       (\<lambda>_. ret ())"

text \<open>\<open>Buffer.from([network])\<close> keeps the low byte of the number.\<close>

definition addOutputBoxMinersFeeTree :: "Device \<Rightarrow> nat option \<Rightarrow> nat \<Rightarrow> unit io" where
  "addOutputBoxMinersFeeTree device sessionId network =
     await (Device_send device SIGN_TX P1_ADD_OUTPUT_BOX_MINERS_FEE_TREE sessionId
        [word_of_nat network]) (\<lambda>_. ret ())"

text \<open>\<open>!path\<close> holds of \<open>undefined\<close> and of the empty string.\<close>

definition addOutputBoxChangeTree :: "Device \<Rightarrow> Externals \<Rightarrow> nat option \<Rightarrow> string option \<Rightarrow> unit io" where
  "addOutputBoxChangeTree device ext sessionId changePath =
     (if changePath = None \<or> changePath = Some []
      then throw ChangePathNotPresent
      else
        await (lift (bip32Path ext (the changePath))) (\<lambda>d.
        await (Device_send device SIGN_TX P1_ADD_OUTPUT_BOX_CHANGE_TREE sessionId d) (\<lambda>_. ret ())))"

definition addOutputBoxTokens :: "Device \<Rightarrow> nat option \<Rightarrow> Token list \<Rightarrow> string list \<Rightarrow> unit io" where
  "addOutputBoxTokens device sessionId toks distinctTokenIdsStr =
     await (lift (Serialize_array toks (\<lambda>t.
        Buffer_concat
          [Serialize_uint32 (indexOf distinctTokenIdsStr (tokenId t)),
           Serialize_uint64 (amount t)]))) (\<lambda>d.
     await (Device_send device SIGN_TX P1_ADD_OUTPUT_BOX_TOKENS sessionId d) (\<lambda>_. ret ()))"

definition addOutputBoxRegisters :: "Device \<Rightarrow> nat option \<Rightarrow> Buffer \<Rightarrow> unit io" where
  "addOutputBoxRegisters device sessionId regs =
     await (Device_sendData device SIGN_TX P1_ADD_OUTPUT_BOX_REGISTERS_CHUNK sessionId regs)
       (\<lambda>_. ret ())"

definition sendOutputs :: "Device \<Rightarrow> Externals \<Rightarrow> nat option \<Rightarrow> BoxCandidate list
    \<Rightarrow> string option ChangeMap \<Rightarrow> Buffer list \<Rightarrow> nat \<Rightarrow> unit io" where
  "sendOutputs device ext sessionId boxes cm ids network =
     (let distinctTokenIdsStr = map Deserialize_hex ids in
      forOf boxes (\<lambda>box.
        await (lift (Buffer_concat
           [Serialize_uint64 (boxValue box),
            Serialize_uint32 (int (length (ergoTree box))),
            Serialize_uint32 (creationHeight box),
            Serialize_uint8 (int (length (tokens box))),
            Serialize_uint32 (int (length (registers box)))])) (\<lambda>d.
        await (Device_send device SIGN_TX P1_ADD_OUTPUT_BOX_START sessionId d) (\<lambda>_.
        await (let tree = Deserialize_hex (ergoTree box) in
               if tree = MAINNET_MINER_FEE_TREE \<or> tree = TESTNET_FEE_TREE
               then addOutputBoxMinersFeeTree device sessionId network
               else if fromErgoTree ext tree = address cm
               then addOutputBoxChangeTree device ext sessionId (path cm)
               else addOutputBoxErgoTree device sessionId (ergoTree box)) (\<lambda>_.
        await (if length (tokens box) > 0
               then addOutputBoxTokens device sessionId (tokens box) distinctTokenIdsStr
               else ret ()) (\<lambda>_.
        if length (registers box) > 0
        then addOutputBoxRegisters device sessionId (registers box)
        else ret ()))))))"

definition sendConfirmAndSign :: "Device \<Rightarrow> nat option \<Rightarrow> Buffer io" where
  "sendConfirmAndSign device sessionId =
     await (Device_send device SIGN_TX P1_CONFIRM_AND_SIGN sessionId []) (\<lambda>response.
     ret (data response))"

definition signTx :: "Device \<Rightarrow> Externals \<Rightarrow> string option AttestedTx \<Rightarrow> string \<Rightarrow> nat
    \<Rightarrow> int option \<Rightarrow> Buffer io" where
  "signTx device ext tx signPath network authToken =
     await (sendHeader device ext signPath authToken) (\<lambda>sessionId.
     await (sendStartTx device sessionId tx (length (distinctTokenIds tx))) (\<lambda>_.
     await (sendDistinctTokensIds device sessionId (distinctTokenIds tx)) (\<lambda>_.
     await (sendInputs device sessionId (inputs tx)) (\<lambda>_.
     await (sendDataInputs device sessionId (dataInputs tx)) (\<lambda>_.
     await (sendOutputs device ext sessionId (outputs tx) (changeMap tx) (distinctTokenIds tx)
        network) (\<lambda>_.
     await (sendConfirmAndSign device sessionId) (\<lambda>signBytes.
     ret signBytes)))))))"

section \<open>The signing session of \<open>erg.ts\<close>\<close>

text \<open>
  The second \<open>signTx\<close> among the sources differs from the first in four functions: the
  header carries the network, there is one miner-fee script, its command has no payload,
  and the change path is not optional.  The other functions are the same.
\<close>

definition MINER_FEE_TREE :: string where
  "MINER_FEE_TREE =
     ''1005040004000e36100204a00b08cd0279be667ef9dcbbac55a06295ce870b07029bfcdb2dce28d959f2815b16f81798ea02d192a39a8cc7a701730073011001020402d19683030193a38cc7b2a57300000193c2b2a57301007473027303830108cdeeac93b1a57304''"

definition sendHeader_erg :: "Device \<Rightarrow> Externals \<Rightarrow> nat \<Rightarrow> string \<Rightarrow> int option \<Rightarrow> nat option io" where
  "sendHeader_erg device ext network signPath authToken =
     await (lift (Buffer_concat
        [Serialize_uint8 (int network),
         bip32Path ext signPath,
         if truthy authToken then Serialize_uint32 (the authToken) else Inr []])) (\<lambda>d.
     await (Device_send device SIGN_TX P1_START_SIGNING
        (Some (if truthy authToken then P2_WITH_TOKEN else P2_WITHOUT_TOKEN)) d) (\<lambda>response.
     ret (firstByte (data response))))"

definition addOutputBoxMinersFeeTree_erg :: "Device \<Rightarrow> nat option \<Rightarrow> unit io" where
  "addOutputBoxMinersFeeTree_erg device sessionId =
     await (Device_send device SIGN_TX P1_ADD_OUTPUT_BOX_MINERS_FEE_TREE sessionId [])
       (\<lambda>_. ret ())"

definition addOutputBoxChangeTree_erg :: "Device \<Rightarrow> Externals \<Rightarrow> nat option \<Rightarrow> string \<Rightarrow> unit io" where
  "addOutputBoxChangeTree_erg device ext sessionId changePath =
     await (lift (bip32Path ext changePath)) (\<lambda>d.
     await (Device_send device SIGN_TX P1_ADD_OUTPUT_BOX_CHANGE_TREE sessionId d) (\<lambda>_. ret ()))"

definition sendOutputs_erg :: "Device \<Rightarrow> Externals \<Rightarrow> nat option \<Rightarrow> BoxCandidate list
    \<Rightarrow> string ChangeMap \<Rightarrow> Buffer list \<Rightarrow> unit io" where
  "sendOutputs_erg device ext sessionId boxes cm ids =
     (let distinctTokenIdsStr = map Deserialize_hex ids in
      forOf boxes (\<lambda>box.
        await (lift (Buffer_concat
           [Serialize_uint64 (boxValue box),
            Serialize_uint32 (int (length (ergoTree box))),
            Serialize_uint32 (creationHeight box),
            Serialize_uint8 (int (length (tokens box))),
            Serialize_uint32 (int (length (registers box)))])) (\<lambda>d.
        await (Device_send device SIGN_TX P1_ADD_OUTPUT_BOX_START sessionId d) (\<lambda>_.
        await (let tree = Deserialize_hex (ergoTree box) in
               if tree = MINER_FEE_TREE
               then addOutputBoxMinersFeeTree_erg device sessionId
               else if fromErgoTree ext tree = address cm
               then addOutputBoxChangeTree_erg device ext sessionId (path cm)
               else addOutputBoxErgoTree device sessionId (ergoTree box)) (\<lambda>_.
        await (if length (tokens box) > 0
               then addOutputBoxTokens device sessionId (tokens box) distinctTokenIdsStr
               else ret ()) (\<lambda>_.
        if length (registers box) > 0
        then addOutputBoxRegisters device sessionId (registers box)
        else ret ()))))))"

definition signTx_erg :: "Device \<Rightarrow> Externals \<Rightarrow> string AttestedTx \<Rightarrow> string \<Rightarrow> nat
    \<Rightarrow> int option \<Rightarrow> Buffer io" where
  "signTx_erg device ext tx signPath network authToken =
     await (sendHeader_erg device ext network signPath authToken) (\<lambda>sessionId.
     await (sendStartTx device sessionId tx (length (distinctTokenIds tx))) (\<lambda>_.
     await (sendDistinctTokensIds device sessionId (distinctTokenIds tx)) (\<lambda>_.
     await (sendInputs device sessionId (inputs tx)) (\<lambda>_.
     await (sendDataInputs device sessionId (dataInputs tx)) (\<lambda>_.
     await (sendOutputs_erg device ext sessionId (outputs tx) (changeMap tx)
        (distinctTokenIds tx)) (\<lambda>_.
     await (sendConfirmAndSign device sessionId) (\<lambda>proof_bytes.
     ret proof_bytes)))))))"

section \<open>The auth token of \<open>ErgoApp\<close> (\<open>erg.ts\<close>)\<close>

text \<open>
  \<open>Math.random()\<close> is a source of numbers in \<open>[0, 1)\<close>: the \<open>i\<close>-th call returns
  \<open>random i\<close>.  The numbers are doubles in the source and reals here; rounding the
  product to a double is monotone and the largest double below 1 gives a product below
  \<open>0xffffffff\<close>, so the floor lies in the same range in both.  The loop is
  \<open>do { ... } while (newToken === this._authToken)\<close>; it returns the token and the
  number of calls of \<open>Math.random\<close> made so far, and not returning is \<open>None\<close>.
\<close>

record ErgoApp =
  app_device :: Device
  app_authToken :: int




text \<open>\<open>getAuthToken\<close>: the token handed to an interaction.\<close>

definition getAuthToken :: "ErgoApp \<Rightarrow> bool \<Rightarrow> int option" where
  "getAuthToken this useAuthToken = (if useAuthToken then Some (app_authToken this) else None)"

section \<open>Address derivation (\<open>interactions/deriveAddress.ts\<close>)\<close>

datatype ReturnType = Return | Display

definition P1_RETURN :: nat where "P1_RETURN = 0x01"
definition P1_DISPLAY :: nat where "P1_DISPLAY = 0x02"

definition CHANGE_PATH_INDEX :: nat where "CHANGE_PATH_INDEX = 3"
definition ALLOWED_CHANGE_PATHS :: "nat list" where "ALLOWED_CHANGE_PATHS = [0, 1]"

text \<open>
  Modelled from the spec: \<open>serialize.path\<close> is not among the sources.  A path of
  components is encoded as a leading length byte followed by each component as a 32-bit
  integer.
\<close>

definition Serialize_path :: "nat list \<Rightarrow> Error + Buffer" where
  "Serialize_path pathArray =
     Buffer_concat (Serialize_uint8 (int (length pathArray)) # map (\<lambda>c. Serialize_uint32 (int c)) pathArray)"

text \<open>
  \<open>pathToArray\<close>, the parser of the path string, is a parameter.  \<open>Buffer.alloc(1,
  network)\<close> is one byte, the low byte of the number.
\<close>

definition sendDeriveAddress :: "Device \<Rightarrow> (string \<Rightarrow> Error + nat list) \<Rightarrow> nat \<Rightarrow> string \<Rightarrow> ReturnType
    \<Rightarrow> int option \<Rightarrow> DeviceResponse io" where
  "sendDeriveAddress device pathToArray network derivationPath returnType authToken =
     await (lift (pathToArray derivationPath)) (\<lambda>pathArray.
     if length pathArray < 5 then throw (InvalidPathLength (length pathArray))
     else
       let change = pathArray ! CHANGE_PATH_INDEX in
       if change \<notin> set ALLOWED_CHANGE_PATHS then throw (InvalidChangePath change)
       else
         await (lift (Buffer_concat [Inr [word_of_nat network], Serialize_path pathArray])) (\<lambda>d.
         await (lift (if truthy authToken
                      then Buffer_concat [Inr d, Serialize_uint32 (the authToken)]
                      else Inr d)) (\<lambda>d'.
         Device_send device DERIVE_ADDRESS
           (if returnType = Return then P1_RETURN else P1_DISPLAY)
           (Some (if truthy authToken then P2_WITH_TOKEN else P2_WITHOUT_TOKEN)) d')))"

section \<open>The commands a function sets out to send\<close>

primrec perform :: "Device \<Rightarrow> (Error + APDU) list \<Rightarrow> unit io" where
  "perform device [] = ret ()"
| "perform device (s # ss) =
     await (case s of Inl e \<Rightarrow> throw e
            | Inr a \<Rightarrow> await (Device_send device (ins a) (p1 a) (p2 a) (payload a)) (\<lambda>_. ret ()))
       (\<lambda>_. perform device ss)"

primrec planSent :: "Device \<Rightarrow> APDU list \<Rightarrow> (Error + APDU) list \<Rightarrow> APDU list" where
  "planSent device tr [] = []"
| "planSent device tr (s # ss) =
     (case s of Inl e \<Rightarrow> []
      | Inr a \<Rightarrow> a # (if returnCode (reply device (tr @ [a])) = RETURN_CODE_OK
                       then planSent device (tr @ [a]) ss else []))"

primrec planOutcome :: "Device \<Rightarrow> APDU list \<Rightarrow> (Error + APDU) list \<Rightarrow> Error + unit" where
  "planOutcome device tr [] = Inr ()"
| "planOutcome device tr (s # ss) =
     (case s of Inl e \<Rightarrow> Inl e
      | Inr a \<Rightarrow> (if returnCode (reply device (tr @ [a])) = RETURN_CODE_OK
                   then planOutcome device (tr @ [a]) ss
                   else Inl (DeviceError (returnCode (reply device (tr @ [a]))))))"

definition step :: "nat \<Rightarrow> nat option \<Rightarrow> Error + Buffer \<Rightarrow> Error + APDU" where
  "step a b r = (case r of Inl e \<Rightarrow> Inl e | Inr d \<Rightarrow> Inr (apdu SIGN_TX a b d))"

definition slices :: "Device \<Rightarrow> nat \<Rightarrow> nat option \<Rightarrow> Buffer \<Rightarrow> (Error + APDU) list" where
  "slices device a b d = map (\<lambda>s. Inr (apdu SIGN_TX a b s)) (chunked (MAX_DATA_LENGTH device) d)"

definition startTxPlan :: "nat option \<Rightarrow> 'p AttestedTx \<Rightarrow> nat \<Rightarrow> (Error + APDU) list" where
  "startTxPlan sessionId tx n =
     [step P1_START_TRANSACTION sessionId (Buffer_concat
        [Serialize_uint16 (int (length (inputs tx))),
         Serialize_uint16 (int (length (dataInputs tx))),
         Serialize_uint8 (int n),
         Serialize_uint16 (int (length (outputs tx)))])]"

definition tokenIdsPlan :: "nat option \<Rightarrow> Buffer list \<Rightarrow> (Error + APDU) list" where
  "tokenIdsPlan sessionId ids =
     map (\<lambda>p. Inr (apdu SIGN_TX P1_ADD_TOKEN_IDS sessionId p)) (arrayAndChunk ids MAX_PACKET_SIZE (\<lambda>i. i))"

definition inputPlan :: "Device \<Rightarrow> nat option \<Rightarrow> AttestedBox \<Rightarrow> (Error + APDU) list" where
  "inputPlan device sessionId box =
     map (\<lambda>frame. Inr (apdu SIGN_TX P1_ADD_INPUT_BOX_FRAME sessionId (buffer frame))) (frames box) @
     (if extension box \<noteq> None \<and> length (the (extension box)) > 0
      then slices device P1_ADD_INPUT_BOX_CONTEXT_EXTENSION_CHUNK sessionId (the (extension box))
      else [])"

definition dataInputsPlan :: "nat option \<Rightarrow> string list \<Rightarrow> (Error + APDU) list" where
  "dataInputsPlan sessionId boxIds =
     map (\<lambda>p. Inr (apdu SIGN_TX P1_ADD_DATA_INPUTS sessionId p))
       (arrayAndChunk boxIds MAX_PACKET_SIZE (\<lambda>i. Serialize_hex i))"

definition startPlan :: "nat option \<Rightarrow> BoxCandidate \<Rightarrow> (Error + APDU) list" where
  "startPlan sessionId box =
     [step P1_ADD_OUTPUT_BOX_START sessionId (Buffer_concat
           [Serialize_uint64 (boxValue box),
            Serialize_uint32 (int (length (ergoTree box))),
            Serialize_uint32 (creationHeight box),
            Serialize_uint8 (int (length (tokens box))),
            Serialize_uint32 (int (length (registers box)))])]"

definition treePlan :: "Device \<Rightarrow> Externals \<Rightarrow> nat option \<Rightarrow> string option ChangeMap \<Rightarrow> nat
    \<Rightarrow> BoxCandidate \<Rightarrow> (Error + APDU) list" where
  "treePlan device ext sessionId cm network box =
     (let tree = Deserialize_hex (ergoTree box) in
      if tree = MAINNET_MINER_FEE_TREE \<or> tree = TESTNET_FEE_TREE
      then [Inr (apdu SIGN_TX P1_ADD_OUTPUT_BOX_MINERS_FEE_TREE sessionId [word_of_nat network])]
      else if fromErgoTree ext tree = address cm
      then (if path cm = None \<or> path cm = Some [] then [Inl ChangePathNotPresent]
            else [step P1_ADD_OUTPUT_BOX_CHANGE_TREE sessionId (bip32Path ext (the (path cm)))])
      else slices device P1_ADD_OUTPUT_BOX_ERGO_TREE_CHUNK sessionId (ergoTree box))"

definition treePlan_erg :: "Device \<Rightarrow> Externals \<Rightarrow> nat option \<Rightarrow> string ChangeMap
    \<Rightarrow> BoxCandidate \<Rightarrow> (Error + APDU) list" where
  "treePlan_erg device ext sessionId cm box =
     (let tree = Deserialize_hex (ergoTree box) in
      if tree = MINER_FEE_TREE
      then [Inr (apdu SIGN_TX P1_ADD_OUTPUT_BOX_MINERS_FEE_TREE sessionId [])]
      else if fromErgoTree ext tree = address cm
      then [step P1_ADD_OUTPUT_BOX_CHANGE_TREE sessionId (bip32Path ext (path cm))]
      else slices device P1_ADD_OUTPUT_BOX_ERGO_TREE_CHUNK sessionId (ergoTree box))"

definition tokensPlan :: "nat option \<Rightarrow> string list \<Rightarrow> BoxCandidate \<Rightarrow> (Error + APDU) list" where
  "tokensPlan sessionId strs box =
     (if length (tokens box) > 0
      then [step P1_ADD_OUTPUT_BOX_TOKENS sessionId (Serialize_array (tokens box) (\<lambda>t.
              Buffer_concat [Serialize_uint32 (indexOf strs (tokenId t)), Serialize_uint64 (amount t)]))]
      else [])"

definition registersPlan :: "Device \<Rightarrow> nat option \<Rightarrow> BoxCandidate \<Rightarrow> (Error + APDU) list" where
  "registersPlan device sessionId box =
     (if length (registers box) > 0
      then slices device P1_ADD_OUTPUT_BOX_REGISTERS_CHUNK sessionId (registers box)
      else [])"

definition outputPlan :: "Device \<Rightarrow> Externals \<Rightarrow> nat option \<Rightarrow> string option ChangeMap \<Rightarrow> Buffer list
    \<Rightarrow> nat \<Rightarrow> BoxCandidate \<Rightarrow> (Error + APDU) list" where
  "outputPlan device ext sessionId cm ids network box =
     startPlan sessionId box @ treePlan device ext sessionId cm network box @
     tokensPlan sessionId (map Deserialize_hex ids) box @ registersPlan device sessionId box"

definition outputPlan_erg :: "Device \<Rightarrow> Externals \<Rightarrow> nat option \<Rightarrow> string ChangeMap \<Rightarrow> Buffer list
    \<Rightarrow> BoxCandidate \<Rightarrow> (Error + APDU) list" where
  "outputPlan_erg device ext sessionId cm ids box =
     startPlan sessionId box @ treePlan_erg device ext sessionId cm box @
     tokensPlan sessionId (map Deserialize_hex ids) box @ registersPlan device sessionId box"

definition confirmPlan :: "nat option \<Rightarrow> (Error + APDU) list" where
  "confirmPlan sessionId = [Inr (apdu SIGN_TX P1_CONFIRM_AND_SIGN sessionId [])]"

definition bodyPlan :: "Device \<Rightarrow> Externals \<Rightarrow> nat option \<Rightarrow> string option AttestedTx \<Rightarrow> nat
   \<Rightarrow> (Error + APDU) list" where
  "bodyPlan device ext sessionId tx network =
     startTxPlan sessionId tx (length (distinctTokenIds tx)) @
     tokenIdsPlan sessionId (distinctTokenIds tx) @
     concat (map (inputPlan device sessionId) (inputs tx)) @
     dataInputsPlan sessionId (dataInputs tx) @
     concat (map (outputPlan device ext sessionId (changeMap tx) (distinctTokenIds tx) network) (outputs tx)) @
     confirmPlan sessionId"

definition bodyPlan_erg :: "Device \<Rightarrow> Externals \<Rightarrow> nat option \<Rightarrow> string AttestedTx
   \<Rightarrow> (Error + APDU) list" where
  "bodyPlan_erg device ext sessionId tx =
     startTxPlan sessionId tx (length (distinctTokenIds tx)) @
     tokenIdsPlan sessionId (distinctTokenIds tx) @
     concat (map (inputPlan device sessionId) (inputs tx)) @
     dataInputsPlan sessionId (dataInputs tx) @
     concat (map (outputPlan_erg device ext sessionId (changeMap tx) (distinctTokenIds tx)) (outputs tx)) @
     confirmPlan sessionId"

definition headerData :: "Externals \<Rightarrow> string \<Rightarrow> int option \<Rightarrow> Error + Buffer" where
  "headerData ext signPath authToken =
     Buffer_concat [bip32Path ext signPath,
       if truthy authToken then Serialize_uint32 (the authToken) else Inr []]"

definition headerData_erg :: "Externals \<Rightarrow> nat \<Rightarrow> string \<Rightarrow> int option \<Rightarrow> Error + Buffer" where
  "headerData_erg ext network signPath authToken =
     Buffer_concat [Serialize_uint8 (int network), bip32Path ext signPath,
       if truthy authToken then Serialize_uint32 (the authToken) else Inr []]"

definition headerP2 :: "int option \<Rightarrow> nat option" where
  "headerP2 authToken = Some (if truthy authToken then P2_WITH_TOKEN else P2_WITHOUT_TOKEN)"

definition sessionPlan :: "Device \<Rightarrow> APDU list \<Rightarrow> Error + Buffer \<Rightarrow> nat option
    \<Rightarrow> (nat option \<Rightarrow> (Error + APDU) list) \<Rightarrow> (Error + APDU) list" where
  "sessionPlan device tr hd_data hd_p2 body =
     (case hd_data of Inl e \<Rightarrow> [Inl e]
      | Inr d \<Rightarrow>
          Inr (apdu SIGN_TX P1_START_SIGNING hd_p2 d) #
          body (firstByte (data (reply device (tr @ [apdu SIGN_TX P1_START_SIGNING hd_p2 d])))))"

definition signTxPlan :: "Device \<Rightarrow> Externals \<Rightarrow> string option AttestedTx \<Rightarrow> string \<Rightarrow> nat
    \<Rightarrow> int option \<Rightarrow> APDU list \<Rightarrow> (Error + APDU) list" where
  "signTxPlan device ext tx signPath network authToken tr =
     sessionPlan device tr (headerData ext signPath authToken) (headerP2 authToken)
       (\<lambda>sessionId. bodyPlan device ext sessionId tx network)"

definition signTxPlan_erg :: "Device \<Rightarrow> Externals \<Rightarrow> string AttestedTx \<Rightarrow> string \<Rightarrow> nat
    \<Rightarrow> int option \<Rightarrow> APDU list \<Rightarrow> (Error + APDU) list" where
  "signTxPlan_erg device ext tx signPath network authToken tr =
     sessionPlan device tr (headerData_erg ext network signPath authToken) (headerP2 authToken)
       (\<lambda>sessionId. bodyPlan_erg device ext sessionId tx)"

definition cmdsOf :: "(Error + APDU) list \<Rightarrow> APDU list" where
  "cmdsOf plan = concat (map (\<lambda>s. case s of Inl e \<Rightarrow> [] | Inr a \<Rightarrow> [a]) plan)"

primrec planError :: "(Error + APDU) list \<Rightarrow> Error option" where
  "planError [] = None"
| "planError (s # ss) = (case s of Inl e \<Rightarrow> Some e | Inr a \<Rightarrow> planError ss)"

definition accepting :: "Device \<Rightarrow> bool" where
  "accepting device = (\<forall>tr. returnCode (reply device tr) = RETURN_CODE_OK)"

text \<open>A command of the session \<open>sid\<close> whose \<open>p1\<close> is one of the codes \<open>S\<close>.\<close>

definition cmdWith :: "nat set \<Rightarrow> nat option \<Rightarrow> APDU \<Rightarrow> bool" where
  "cmdWith S sid a = (ins a = SIGN_TX \<and> p2 a = sid \<and> p1 a \<in> S)"

definition outputCodes :: "nat set" where
  "outputCodes = {P1_ADD_OUTPUT_BOX_START, P1_ADD_OUTPUT_BOX_ERGO_TREE_CHUNK,
     P1_ADD_OUTPUT_BOX_MINERS_FEE_TREE, P1_ADD_OUTPUT_BOX_CHANGE_TREE, P1_ADD_OUTPUT_BOX_TOKENS,
     P1_ADD_OUTPUT_BOX_REGISTERS_CHUNK}"

text \<open>The step of the session protocol a command belongs to (0 for a code that has none).\<close>

definition phase :: "APDU \<Rightarrow> nat" where
  "phase a =
     (if p1 a = P1_START_SIGNING then 1
      else if p1 a = P1_START_TRANSACTION then 2
      else if p1 a = P1_ADD_TOKEN_IDS then 3
      else if p1 a \<in> {P1_ADD_INPUT_BOX_FRAME, P1_ADD_INPUT_BOX_CONTEXT_EXTENSION_CHUNK} then 4
      else if p1 a = P1_ADD_DATA_INPUTS then 5
      else if p1 a \<in> outputCodes then 6
      else if p1 a = P1_CONFIRM_AND_SIGN then 7
      else 0)"

definition bodyCodes :: "nat set" where
  "bodyCodes = {P1_START_TRANSACTION, P1_ADD_TOKEN_IDS, P1_ADD_INPUT_BOX_FRAME,
     P1_ADD_INPUT_BOX_CONTEXT_EXTENSION_CHUNK, P1_ADD_DATA_INPUTS, P1_CONFIRM_AND_SIGN} \<union> outputCodes"


definition dev0 :: Device where
  "dev0 = \<lparr>reply = (\<lambda>tr. \<lparr>returnCode = 0x9000, data = [7]\<rparr>), MAX_DATA_LENGTH = 2\<rparr>"

definition devR :: Device where
  "devR = \<lparr>reply = (\<lambda>tr. \<lparr>returnCode = (if length tr = 3 then 0x6985 else 0x9000), data = [7]\<rparr>),
            MAX_DATA_LENGTH = 2\<rparr>"

definition ext0 :: Externals where
  "ext0 = \<lparr>bip32Path = (\<lambda>p. if p = [] then Inl InvalidPath else Inr [1]), fromErgoTree = (\<lambda>t. t)\<rparr>"

definition tx0 :: "string option AttestedTx" where
  "tx0 = \<lparr>inputs = [\<lparr>frames = [\<lparr>buffer = [1]\<rparr>, \<lparr>buffer = [2]\<rparr>], extension = Some []\<rparr>],
          dataInputs = [''cd''],
          outputs = [\<lparr>boxValue = 5, ergoTree = [0xab], creationHeight = 1,
                      tokens = [\<lparr>tokenId = ''ef'', amount = 3\<rparr>], registers = []\<rparr>],
          distinctTokenIds = [[0xef]],
          changeMap = \<lparr>address = ''ab'', path = Some ''m''\<rparr>\<rparr>"

definition cmds0 :: "APDU list" where
  "cmds0 =
     [apdu SIGN_TX P1_START_SIGNING (Some P2_WITHOUT_TOKEN) [1],
      apdu SIGN_TX P1_START_TRANSACTION (Some 7) [0, 1, 0, 1, 1, 0, 1],
      apdu SIGN_TX P1_ADD_TOKEN_IDS (Some 7) [0xef],
      apdu SIGN_TX P1_ADD_INPUT_BOX_FRAME (Some 7) [1],
      apdu SIGN_TX P1_ADD_INPUT_BOX_FRAME (Some 7) [2],
      apdu SIGN_TX P1_ADD_DATA_INPUTS (Some 7) [0xcd],
      apdu SIGN_TX P1_ADD_OUTPUT_BOX_START (Some 7)
        [0, 0, 0, 0, 0, 0, 0, 5, 0, 0, 0, 1, 0, 0, 0, 1, 1, 0, 0, 0, 0],
      apdu SIGN_TX P1_ADD_OUTPUT_BOX_CHANGE_TREE (Some 7) [1],
      apdu SIGN_TX P1_ADD_OUTPUT_BOX_TOKENS (Some 7) [0, 0, 0, 0, 0, 0, 0, 0, 0, 0, 0, 3],
      apdu SIGN_TX P1_CONFIRM_AND_SIGN (Some 7) []]"

text \<open>The commands \<open>sendInputs\<close> has to send for one attested input.\<close>

definition inputCommands :: "Device \<Rightarrow> nat option \<Rightarrow> AttestedBox \<Rightarrow> APDU list" where
  "inputCommands device sid box =
     map (\<lambda>frame. apdu SIGN_TX P1_ADD_INPUT_BOX_FRAME sid (buffer frame)) (frames box) @
     (if extension box \<noteq> None \<and> the (extension box) \<noteq> []
      then map (apdu SIGN_TX P1_ADD_INPUT_BOX_CONTEXT_EXTENSION_CHUNK sid)
             (chunked (MAX_DATA_LENGTH device) (the (extension box)))
      else [])"









definition cm0_erg :: "string ChangeMap" where
  "cm0_erg = \<lparr>address = ''ab'', path = ''m''\<rparr>"





text \<open>
  The first error of a plan, with the command that stands just before it (\<open>prev\<close> when
  the error is the first step).
\<close>

primrec errCtx :: "APDU option \<Rightarrow> (Error + APDU) list \<Rightarrow> (Error \<times> APDU option) option" where
  "errCtx prev [] = None"
| "errCtx prev (s # ss) = (case s of Inl e \<Rightarrow> Some (e, prev) | Inr a \<Rightarrow> errCtx (Some a) ss)"

definition cpSafe :: "(Error + APDU) list \<Rightarrow> bool" where
  "cpSafe p = (\<forall>prev c. errCtx prev p = Some (ChangePathNotPresent, c) \<longrightarrow>
                 (\<exists>a. c = Some a \<and> p1 a = P1_ADD_OUTPUT_BOX_START))"

definition txNoPath :: "string option AttestedTx" where
  "txNoPath = tx0\<lparr>changeMap := \<lparr>address = ''ab'', path = None\<rparr>\<rparr>"

definition txNoToken :: "string option AttestedTx" where
  "txNoToken = tx0\<lparr>outputs := [\<lparr>boxValue = 5, ergoTree = [0xab], creationHeight = 1,
                      tokens = [\<lparr>tokenId = ''ee'', amount = 3\<rparr>], registers = []\<rparr>]\<rparr>"

section \<open>Properties\<close>

lemma ret_apply: "ret x tr = (Inr x, tr)" by (simp add: ret_def)

lemma throw_apply: "throw e tr = (Inl e, tr)" by (simp add: throw_def)

lemma await_ret [simp]: "await (ret x) f = f x" by (simp add: await_def ret_def)

lemma await_throw [simp]: "await (throw e) f = throw e" by (simp add: await_def throw_def)

lemma lift_Inr [simp]: "lift (Inr x) = ret x" by (simp add: lift_def)

lemma lift_Inl [simp]: "lift (Inl e) = throw e" by (simp add: lift_def)

lemma await_assoc: "await (await m f) g = await m (\<lambda>x. await (f x) g)"
  by (rule ext) (simp add: await_def split: prod.splits sum.splits)

lemma await_ret_right [simp]: "await m ret = m"
  by (rule ext) (simp add: await_def ret_def split: prod.splits sum.splits)

lemma await_ret_unit [simp]: "await (m :: unit io) (\<lambda>_. ret ()) = m"
  by (rule ext) (simp add: await_def ret_def split: prod.splits sum.splits)

lemma perform_append: "perform device (p @ q) = await (perform device p) (\<lambda>_. perform device q)"
  by (induction p) (simp_all add: await_assoc)

lemma forOf_perform: "forOf xs (\<lambda>x. perform device (f x)) = perform device (concat (map f xs))"
  by (induction xs) (simp_all add: perform_append)

lemma apdu_sel [simp]: "ins (apdu c a b d) = c" "p1 (apdu c a b d) = a" "p2 (apdu c a b d) = b" "payload (apdu c a b d) = d"
  by (simp_all add: apdu_def)

lemma apdu_eta [simp]: "apdu (ins a) (p1 a) (p2 a) (payload a) = a"
  by (simp add: apdu_def)

lemma send_perform: "await (Device_send device c a b d) (\<lambda>_. ret ()) = perform device [Inr (apdu c a b d)]"
  by simp

lemma perform_run: "perform device plan tr = (planOutcome device tr plan, tr @ planSent device tr plan)"
proof (induction plan arbitrary: tr)
  case Nil
  show ?case by (simp add: ret_def)
next
  case (Cons s ss)
  show ?case
  proof (cases s)
    case (Inl e)
    then show ?thesis by (simp add: throw_apply)
  next
    case (Inr a)
    then show ?thesis
      using Cons.IH [of "tr @ [a]"]
      by (simp add: await_def Device_send_def Let_def ret_def)
  qed
qed

lemma perform_Nil_eq: "ret () = perform device []" by simp

lemma perform_single_Inl: "throw e = perform device [Inl e]" by simp

lemma lift_send_perform:
  "await (lift r) (\<lambda>d. await (Device_send device SIGN_TX a b d) (\<lambda>_. ret ())) = perform device [step a b r]"
  by (cases r) (simp_all add: step_def)

lemma sendSlices_perform:
  "await (sendSlices device c a b ss prev) (\<lambda>_. ret ()) = perform device (map (\<lambda>s. Inr (apdu c a b s)) ss)"
  by (induction ss arbitrary: prev) (simp_all add: await_assoc)

lemma sendData_perform:
  "await (Device_sendData device SIGN_TX a b d) (\<lambda>_. ret ()) = perform device (slices device a b d)"
  by (simp add: Device_sendData_def slices_def sendSlices_perform)

lemma sendStartTx_plan:
  "await (sendStartTx device sessionId tx n) (\<lambda>_. ret ()) = perform device (startTxPlan sessionId tx n)"
  by (simp add: sendStartTx_def startTxPlan_def await_assoc lift_send_perform)

lemma chunked_Nil [simp]: "chunked n [] = []"
  by (simp add: chunked.simps)

lemma sendDistinctTokensIds_plan:
  "sendDistinctTokensIds device sessionId ids = perform device (tokenIdsPlan sessionId ids)"
proof (cases "ids = []")
  case True
  then show ?thesis
    by (simp add: sendDistinctTokensIds_def tokenIdsPlan_def arrayAndChunk_def)
next
  case False
  have "forOf (arrayAndChunk ids MAX_PACKET_SIZE (\<lambda>i. i))
          (\<lambda>p. perform device [Inr (apdu SIGN_TX P1_ADD_TOKEN_IDS sessionId p)]) =
        perform device (tokenIdsPlan sessionId ids)"
    unfolding forOf_perform tokenIdsPlan_def by (simp add: comp_def)
  with False show ?thesis
    by (simp add: sendDistinctTokensIds_def)
qed

lemma forOf_sends:
  "forOf xs (\<lambda>x. await (Device_send device c a b (g x)) (\<lambda>_. ret ())) =
   perform device (map (\<lambda>x. Inr (apdu c a b (g x))) xs)"
  by (induction xs) simp_all

lemma sendDataInputs_plan:
  "sendDataInputs device sessionId boxIds = perform device (dataInputsPlan sessionId boxIds)"
  by (simp add: sendDataInputs_def dataInputsPlan_def forOf_sends [where g = "\<lambda>x. x"])

lemma if_perform: "(if c then perform device p else ret ()) = perform device (if c then p else [])"
  by simp

lemma sendInputs_plan:
  "sendInputs device sessionId boxes = perform device (concat (map (inputPlan device sessionId) boxes))"
  unfolding sendInputs_def inputPlan_def perform_append forOf_sends sendBoxContextExtension_def
    sendData_perform if_perform forOf_perform [symmetric]
  by (rule refl)

lemma addOutputBoxTokens_plan:
  "(if length (tokens box) > 0 then addOutputBoxTokens device sessionId (tokens box) strs else ret ()) =
   perform device (tokensPlan sessionId strs box)"
  by (simp add: addOutputBoxTokens_def tokensPlan_def lift_send_perform)

lemma addOutputBoxRegisters_plan:
  "(if length (registers box) > 0 then addOutputBoxRegisters device sessionId (registers box) else ret ()) =
   perform device (registersPlan device sessionId box)"
  by (simp add: addOutputBoxRegisters_def registersPlan_def sendData_perform)

lemma tree_plan:
  "(let tree = Deserialize_hex (ergoTree box) in
    if tree = MAINNET_MINER_FEE_TREE \<or> tree = TESTNET_FEE_TREE
    then addOutputBoxMinersFeeTree device sessionId network
    else if fromErgoTree ext tree = address cm
    then addOutputBoxChangeTree device ext sessionId (path cm)
    else addOutputBoxErgoTree device sessionId (ergoTree box)) =
   perform device (treePlan device ext sessionId cm network box)"
  by (simp add: Let_def treePlan_def addOutputBoxMinersFeeTree_def addOutputBoxChangeTree_def
      addOutputBoxErgoTree_def sendData_perform lift_send_perform)

lemma tree_plan_erg:
  "(let tree = Deserialize_hex (ergoTree box) in
    if tree = MINER_FEE_TREE
    then addOutputBoxMinersFeeTree_erg device sessionId
    else if fromErgoTree ext tree = address cm
    then addOutputBoxChangeTree_erg device ext sessionId (path cm)
    else addOutputBoxErgoTree device sessionId (ergoTree box)) =
   perform device (treePlan_erg device ext sessionId cm box)"
  by (simp add: Let_def treePlan_erg_def addOutputBoxMinersFeeTree_erg_def addOutputBoxChangeTree_erg_def
      addOutputBoxErgoTree_def sendData_perform lift_send_perform)

lemma lift_send_then:
  "await (lift r) (\<lambda>d. await (Device_send device SIGN_TX a b d) (\<lambda>_. perform device q)) =
   perform device (step a b r # q)"
  by (cases r) (simp_all add: step_def await_assoc)

lemma sendOutputs_plan:
  "sendOutputs device ext sessionId boxes cm ids network =
   perform device (concat (map (outputPlan device ext sessionId cm ids network) boxes))"
  unfolding sendOutputs_def Let_def [of "map Deserialize_hex ids"] tree_plan addOutputBoxTokens_plan
    addOutputBoxRegisters_plan perform_append [symmetric] lift_send_then
    forOf_perform
  by (simp add: outputPlan_def startPlan_def cong: map_cong)

lemma sendOutputs_erg_plan:
  "sendOutputs_erg device ext sessionId boxes cm ids =
   perform device (concat (map (outputPlan_erg device ext sessionId cm ids) boxes))"
  unfolding sendOutputs_erg_def Let_def [of "map Deserialize_hex ids"] tree_plan_erg addOutputBoxTokens_plan
    addOutputBoxRegisters_plan perform_append [symmetric] lift_send_then
    forOf_perform
  by (simp add: outputPlan_erg_def startPlan_def cong: map_cong)

lemma sendConfirmAndSign_plan:
  "await (sendConfirmAndSign device sessionId) (\<lambda>_. ret ()) = perform device (confirmPlan sessionId)"
  by (simp add: sendConfirmAndSign_def confirmPlan_def await_assoc)

lemma header_then:
  "await (await (lift r) (\<lambda>d. await (Device_send device SIGN_TX P1_START_SIGNING b d)
      (\<lambda>response. ret (firstByte (data response))))) (\<lambda>sessionId. perform device (body sessionId)) tr =
   perform device (sessionPlan device tr r b body) tr"
  by (cases r)
    (simp_all add: sessionPlan_def throw_apply await_def Device_send_def Let_def ret_def)

lemma signTx_body:
  "await (signTx device ext tx signPath network authToken) (\<lambda>_. ret ()) =
   await (sendHeader device ext signPath authToken) (\<lambda>sessionId.
     perform device (bodyPlan device ext sessionId tx network))"
  unfolding signTx_def bodyPlan_def perform_append sendStartTx_plan [symmetric]
    sendDistinctTokensIds_plan [symmetric] sendInputs_plan [symmetric] sendDataInputs_plan [symmetric]
    sendOutputs_plan [symmetric] sendConfirmAndSign_plan [symmetric]
  by (simp add: await_assoc)

lemma signTx_erg_body:
  "await (signTx_erg device ext tx signPath network authToken) (\<lambda>_. ret ()) =
   await (sendHeader_erg device ext network signPath authToken) (\<lambda>sessionId.
     perform device (bodyPlan_erg device ext sessionId tx))"
  unfolding signTx_erg_def bodyPlan_erg_def perform_append sendStartTx_plan [symmetric]
    sendDistinctTokensIds_plan [symmetric] sendInputs_plan [symmetric] sendDataInputs_plan [symmetric]
    sendOutputs_erg_plan [symmetric] sendConfirmAndSign_plan [symmetric]
  by (simp add: await_assoc)

lemma signTx_plan:
  "await (signTx device ext tx signPath network authToken) (\<lambda>_. ret ()) tr =
   perform device (signTxPlan device ext tx signPath network authToken tr) tr"
  unfolding signTx_body signTxPlan_def sendHeader_def headerData_def [symmetric] headerP2_def [symmetric]
  by (rule header_then)

lemma signTx_erg_plan:
  "await (signTx_erg device ext tx signPath network authToken) (\<lambda>_. ret ()) tr =
   perform device (signTxPlan_erg device ext tx signPath network authToken tr) tr"
  unfolding signTx_erg_body signTxPlan_erg_def sendHeader_erg_def headerData_erg_def [symmetric]
    headerP2_def [symmetric]
  by (rule header_then)

lemma cmdsOf_simps [simp]:
  "cmdsOf [] = []"
  "cmdsOf (Inl e # p) = cmdsOf p"
  "cmdsOf (Inr a # p) = a # cmdsOf p"
  "cmdsOf (p @ q) = cmdsOf p @ cmdsOf q"
  by (simp_all add: cmdsOf_def)

lemma cmdsOf_concat: "cmdsOf (concat ps) = concat (map cmdsOf ps)"
  by (induction ps) simp_all

lemma cmdsOf_map_Inr [simp]: "cmdsOf (map (\<lambda>x. Inr (f x)) xs) = map f xs"
  by (induction xs) simp_all

lemma planError_append: "planError (p @ q) = (case planError p of None \<Rightarrow> planError q | Some e \<Rightarrow> Some e)"
  by (induction p) (simp_all split: sum.splits)

lemma planError_map_Inr [simp]: "planError (map (\<lambda>x. Inr (f x)) xs) = None"
  by (induction xs) simp_all

lemma planSent_prefix: "prefix (planSent device tr plan) (cmdsOf plan)"
proof (induction plan arbitrary: tr)
  case Nil
  show ?case by simp
next
  case (Cons s ss)
  show ?case using Cons.IH by (cases s) simp_all
qed

lemma planOutcome_success:
  "planOutcome device tr plan = Inr () \<Longrightarrow> planSent device tr plan = cmdsOf plan \<and> planError plan = None"
proof (induction plan arbitrary: tr)
  case Nil
  show ?case by simp
next
  case (Cons s ss)
  then show ?case by (cases s) (auto split: if_splits)
qed

lemma planOutcome_accepting:
  "accepting device \<Longrightarrow>
   planOutcome device tr plan = (case planError plan of None \<Rightarrow> Inr () | Some e \<Rightarrow> Inl e)"
  by (induction plan arbitrary: tr) (simp_all add: accepting_def split: sum.splits)

lemma planSent_abort:
  "n < length (planSent device tr plan) \<Longrightarrow>
   returnCode (reply device (tr @ take (Suc n) (planSent device tr plan))) \<noteq> RETURN_CODE_OK \<Longrightarrow>
   Suc n = length (planSent device tr plan) \<and>
   planOutcome device tr plan =
     Inl (DeviceError (returnCode (reply device (tr @ planSent device tr plan))))"
proof (induction plan arbitrary: tr n)
  case Nil
  then show ?case by simp
next
  case (Cons s ss)
  show ?case
  proof (cases s)
    case (Inl e)
    with Cons.prems show ?thesis by simp
  next
    case (Inr a)
    show ?thesis
    proof (cases "returnCode (reply device (tr @ [a])) = RETURN_CODE_OK")
      case False
      with Inr Cons.prems show ?thesis by simp
    next
      case True
      with Inr Cons.prems obtain m where m: "n = Suc m"
        by (cases n) auto
      from True Inr Cons.prems m
      have "m < length (planSent device (tr @ [a]) ss)"
        and "returnCode (reply device ((tr @ [a]) @ take (Suc m) (planSent device (tr @ [a]) ss)))
              \<noteq> RETURN_CODE_OK"
        by simp_all
      from Cons.IH [OF this] True Inr m show ?thesis by simp
    qed
  qed
qed

text \<open>An error that is not the device's stands in the plan, after the commands sent.\<close>

lemma planOutcome_error:
  "planOutcome device tr plan = Inl e \<Longrightarrow> \<forall>c. e \<noteq> DeviceError c \<Longrightarrow>
   \<exists>post. plan = map Inr (planSent device tr plan) @ Inl e # post"
proof (induction plan arbitrary: tr)
  case Nil
  then show ?case by simp
next
  case (Cons s ss)
  show ?case
  proof (cases s)
    case (Inl e')
    with Cons.prems show ?thesis by simp
  next
    case (Inr a)
    with Cons.prems have ok: "returnCode (reply device (tr @ [a])) = RETURN_CODE_OK"
      by (auto split: if_splits)
    with Inr Cons.prems have "planOutcome device (tr @ [a]) ss = Inl e" by simp
    from Cons.IH [OF this Cons.prems(2)] ok Inr show ?thesis by simp
  qed
qed

lemma snd_void: "snd (await m (\<lambda>_. ret ()) tr) = snd (m tr)"
  by (simp add: await_def ret_def split: prod.splits sum.splits)

lemma fst_void: "fst (await m (\<lambda>_. ret ()) tr) = map_sum (\<lambda>e. e) (\<lambda>_. ()) (fst (m tr))"
  by (simp add: await_def ret_def split: prod.splits sum.splits)

lemma sent_perform [simp]: "sent (perform device plan) tr = planSent device tr plan"
  by (simp add: sent_def perform_run)

lemma outcome_perform [simp]: "outcome (perform device plan) tr = planOutcome device tr plan"
  by (simp add: outcome_def perform_run)

lemma sent_void: "sent (await m (\<lambda>_. ret ())) tr = sent m tr"
  by (simp add: sent_def snd_void)

lemma outcome_void: "outcome (await m (\<lambda>_. ret ())) tr = map_sum (\<lambda>e. e) (\<lambda>_. ()) (outcome m tr)"
  by (simp add: outcome_def fst_void)

lemma sent_signTx:
  "sent (signTx device ext tx signPath network authToken) tr =
   planSent device tr (signTxPlan device ext tx signPath network authToken tr)"
proof -
  have "sent (signTx device ext tx signPath network authToken) tr =
        sent (await (signTx device ext tx signPath network authToken) (\<lambda>_. ret ())) tr"
    by (simp only: sent_void)
  also have "\<dots> = planSent device tr (signTxPlan device ext tx signPath network authToken tr)"
    by (simp add: sent_def signTx_plan perform_run)
  finally show ?thesis .
qed

lemma outcome_signTx:
  "map_sum (\<lambda>e. e) (\<lambda>_. ()) (outcome (signTx device ext tx signPath network authToken) tr) =
   planOutcome device tr (signTxPlan device ext tx signPath network authToken tr)"
proof -
  have "map_sum (\<lambda>e. e) (\<lambda>_. ()) (outcome (signTx device ext tx signPath network authToken) tr) =
        outcome (await (signTx device ext tx signPath network authToken) (\<lambda>_. ret ())) tr"
    by (simp only: outcome_void)
  also have "\<dots> = planOutcome device tr (signTxPlan device ext tx signPath network authToken tr)"
    by (simp add: outcome_def signTx_plan perform_run)
  finally show ?thesis .
qed

lemma sent_signTx_erg:
  "sent (signTx_erg device ext tx signPath network authToken) tr =
   planSent device tr (signTxPlan_erg device ext tx signPath network authToken tr)"
proof -
  have "sent (signTx_erg device ext tx signPath network authToken) tr =
        sent (await (signTx_erg device ext tx signPath network authToken) (\<lambda>_. ret ())) tr"
    by (simp only: sent_void)
  also have "\<dots> = planSent device tr (signTxPlan_erg device ext tx signPath network authToken tr)"
    by (simp add: sent_def signTx_erg_plan perform_run)
  finally show ?thesis .
qed


lemma cmdWith_apdu [simp]: "cmdWith S sid (apdu c a b d) = (c = SIGN_TX \<and> b = sid \<and> a \<in> S)"
  by (simp add: cmdWith_def)

lemma cmdWith_mono: "cmdWith S sid a \<Longrightarrow> S \<subseteq> T \<Longrightarrow> cmdWith T sid a"
  by (auto simp: cmdWith_def)

lemma cmdsOf_step: "cmdsOf [step a b r] = (case r of Inl e \<Rightarrow> [] | Inr d \<Rightarrow> [apdu SIGN_TX a b d])"
  by (simp add: step_def split: sum.splits)

lemma cmdsOf_slices: "cmdsOf (slices device a b d) = map (apdu SIGN_TX a b) (chunked (MAX_DATA_LENGTH device) d)"
  by (simp add: slices_def)

lemma cmds_step: "x \<in> set (cmdsOf [step a b r]) \<Longrightarrow> cmdWith {a} b x"
  by (auto simp: cmdsOf_step split: sum.splits)

lemma cmds_slices: "x \<in> set (cmdsOf (slices device a b d)) \<Longrightarrow> cmdWith {a} b x"
  by (auto simp: cmdsOf_slices)

lemma cmds_startTx: "x \<in> set (cmdsOf (startTxPlan sid tx n)) \<Longrightarrow> cmdWith {P1_START_TRANSACTION} sid x"
  unfolding startTxPlan_def by (rule cmds_step)

lemma cmds_tokenIds: "x \<in> set (cmdsOf (tokenIdsPlan sid ids)) \<Longrightarrow> cmdWith {P1_ADD_TOKEN_IDS} sid x"
  by (auto simp: tokenIdsPlan_def)

lemma cmds_input:
  "x \<in> set (cmdsOf (inputPlan device sid box)) \<Longrightarrow>
   cmdWith {P1_ADD_INPUT_BOX_FRAME, P1_ADD_INPUT_BOX_CONTEXT_EXTENSION_CHUNK} sid x"
  by (auto simp: inputPlan_def cmdsOf_slices split: if_splits)

lemma cmds_inputs:
  "x \<in> set (cmdsOf (concat (map (inputPlan device sid) boxes))) \<Longrightarrow>
   cmdWith {P1_ADD_INPUT_BOX_FRAME, P1_ADD_INPUT_BOX_CONTEXT_EXTENSION_CHUNK} sid x"
  by (auto simp: cmdsOf_concat dest: cmds_input)

lemma cmds_dataInputs: "x \<in> set (cmdsOf (dataInputsPlan sid boxIds)) \<Longrightarrow> cmdWith {P1_ADD_DATA_INPUTS} sid x"
  by (auto simp: dataInputsPlan_def)

lemma cmds_start: "x \<in> set (cmdsOf (startPlan sid box)) \<Longrightarrow> cmdWith {P1_ADD_OUTPUT_BOX_START} sid x"
  unfolding startPlan_def by (rule cmds_step)

lemma cmds_tree:
  "x \<in> set (cmdsOf (treePlan device ext sid cm network box)) \<Longrightarrow>
   cmdWith {P1_ADD_OUTPUT_BOX_ERGO_TREE_CHUNK, P1_ADD_OUTPUT_BOX_MINERS_FEE_TREE,
     P1_ADD_OUTPUT_BOX_CHANGE_TREE} sid x"
  by (auto simp: treePlan_def Let_def cmdsOf_slices cmdsOf_step split: if_splits sum.splits)

lemma cmds_tree_erg:
  "x \<in> set (cmdsOf (treePlan_erg device ext sid cm box)) \<Longrightarrow>
   cmdWith {P1_ADD_OUTPUT_BOX_ERGO_TREE_CHUNK, P1_ADD_OUTPUT_BOX_MINERS_FEE_TREE,
     P1_ADD_OUTPUT_BOX_CHANGE_TREE} sid x"
  by (auto simp: treePlan_erg_def Let_def cmdsOf_slices cmdsOf_step split: if_splits sum.splits)

lemma cmds_tokens: "x \<in> set (cmdsOf (tokensPlan sid strs box)) \<Longrightarrow> cmdWith {P1_ADD_OUTPUT_BOX_TOKENS} sid x"
  by (auto simp: tokensPlan_def cmdsOf_step split: if_splits sum.splits)

lemma cmds_registers:
  "x \<in> set (cmdsOf (registersPlan device sid box)) \<Longrightarrow> cmdWith {P1_ADD_OUTPUT_BOX_REGISTERS_CHUNK} sid x"
  by (auto simp: registersPlan_def cmdsOf_slices split: if_splits)

lemma cmds_output:
  "x \<in> set (cmdsOf (outputPlan device ext sid cm ids network box)) \<Longrightarrow> cmdWith outputCodes sid x"
  unfolding outputPlan_def cmdsOf_simps set_append Un_iff
  by (elim disjE)
    (auto dest!: cmds_start cmds_tree cmds_tokens cmds_registers simp: outputCodes_def cmdWith_def)

lemma cmds_output_erg:
  "x \<in> set (cmdsOf (outputPlan_erg device ext sid cm ids box)) \<Longrightarrow> cmdWith outputCodes sid x"
  unfolding outputPlan_erg_def cmdsOf_simps set_append Un_iff
  by (elim disjE)
    (auto dest!: cmds_start cmds_tree_erg cmds_tokens cmds_registers simp: outputCodes_def cmdWith_def)

lemma cmds_outputs:
  "x \<in> set (cmdsOf (concat (map (outputPlan device ext sid cm ids network) boxes))) \<Longrightarrow>
   cmdWith outputCodes sid x"
  by (auto simp: cmdsOf_concat dest: cmds_output)

lemma cmds_outputs_erg:
  "x \<in> set (cmdsOf (concat (map (outputPlan_erg device ext sid cm ids) boxes))) \<Longrightarrow>
   cmdWith outputCodes sid x"
  by (auto simp: cmdsOf_concat dest: cmds_output_erg)

lemma cmds_confirm: "x \<in> set (cmdsOf (confirmPlan sid)) \<Longrightarrow> cmdWith {P1_CONFIRM_AND_SIGN} sid x"
  by (auto simp: confirmPlan_def)

lemmas P1_defs = P1_START_SIGNING_def P1_START_TRANSACTION_def P1_ADD_TOKEN_IDS_def
  P1_ADD_INPUT_BOX_FRAME_def P1_ADD_INPUT_BOX_CONTEXT_EXTENSION_CHUNK_def P1_ADD_DATA_INPUTS_def
  P1_ADD_OUTPUT_BOX_START_def P1_ADD_OUTPUT_BOX_ERGO_TREE_CHUNK_def
  P1_ADD_OUTPUT_BOX_MINERS_FEE_TREE_def P1_ADD_OUTPUT_BOX_CHANGE_TREE_def
  P1_ADD_OUTPUT_BOX_TOKENS_def P1_ADD_OUTPUT_BOX_REGISTERS_CHUNK_def P1_CONFIRM_AND_SIGN_def




lemma body_cmds:
  "x \<in> set (cmdsOf (bodyPlan device ext sid tx network)) \<Longrightarrow> cmdWith bodyCodes sid x"
  unfolding bodyPlan_def cmdsOf_simps set_append Un_iff
  by (elim disjE)
    (auto dest!: cmds_startTx cmds_tokenIds cmds_inputs cmds_dataInputs cmds_outputs cmds_confirm
      simp: cmdWith_def bodyCodes_def)

lemma body_cmds_erg:
  "x \<in> set (cmdsOf (bodyPlan_erg device ext sid tx)) \<Longrightarrow> cmdWith bodyCodes sid x"
  unfolding bodyPlan_erg_def cmdsOf_simps set_append Un_iff
  by (elim disjE)
    (auto dest!: cmds_startTx cmds_tokenIds cmds_inputs cmds_dataInputs cmds_outputs_erg cmds_confirm
      simp: cmdWith_def bodyCodes_def)



lemma cmdsOf_sessionPlan:
  "cmdsOf (sessionPlan device tr r b body) =
     (case r of Inl e \<Rightarrow> []
      | Inr d \<Rightarrow> apdu SIGN_TX P1_START_SIGNING b d #
          cmdsOf (body (firstByte (data (reply device (tr @ [apdu SIGN_TX P1_START_SIGNING b d]))))))"
  by (simp add: sessionPlan_def split: sum.splits)


lemma phase_header [simp]: "phase (apdu c P1_START_SIGNING b d) = 1"
  by (simp add: phase_def)

lemma prefix_Cons_cases:
  "prefix xs (y # ys) \<Longrightarrow> xs = [] \<or> (hd xs = y \<and> prefix (tl xs) ys)"
  by (cases xs) auto



lemma session_p2:
  assumes body: "\<And>sid x. x \<in> set (cmdsOf (body sid)) \<Longrightarrow> cmdWith bodyCodes sid x"
    and pre: "prefix cmds (cmdsOf (sessionPlan device tr r b body))"
    and ne: "cmds \<noteq> []"
  shows "ins (hd cmds) = SIGN_TX \<and> p1 (hd cmds) = P1_START_SIGNING \<and> p2 (hd cmds) = b \<and>
         (\<forall>a \<in> set (tl cmds). cmdWith bodyCodes (firstByte (data (reply device (tr @ [hd cmds])))) a)"
proof (cases r)
  case (Inl e)
  with pre ne show ?thesis by (simp add: cmdsOf_sessionPlan)
next
  case (Inr d)
  let ?h = "apdu SIGN_TX P1_START_SIGNING b d"
  let ?sid = "firstByte (data (reply device (tr @ [?h])))"
  from pre Inr have "prefix cmds (?h # cmdsOf (body ?sid))"
    by (simp add: cmdsOf_sessionPlan)
  from prefix_Cons_cases [OF this] ne
  have h: "hd cmds = ?h" and t: "prefix (tl cmds) (cmdsOf (body ?sid))"
    by simp_all
  from t have "set (tl cmds) \<subseteq> set (cmdsOf (body ?sid))"
    by (rule set_mono_prefix)
  with body h show ?thesis by auto
qed

lemma map_sum_Inl_iff: "map_sum (\<lambda>e. e) f r = Inl e \<longleftrightarrow> r = Inl e"
  by (cases r) auto


lemma bigEndian_eval:
  "bigEndian (Suc 0) v = [word_of_int v]"
  "bigEndian 1 v = [word_of_int v]"
  "bigEndian 2 v = [word_of_int (v div 256), word_of_int v]"
  "bigEndian 4 v = [word_of_int (v div 16777216), word_of_int (v div 65536), word_of_int (v div 256), word_of_int v]"
  by (simp_all add: bigEndian_def upt_rec)

lemma bigEndian_8:
  "bigEndian 8 v = [word_of_int (v div 72057594037927936), word_of_int (v div 281474976710656),
     word_of_int (v div 1099511627776), word_of_int (v div 4294967296),
     word_of_int (v div 16777216), word_of_int (v div 65536), word_of_int (v div 256), word_of_int v]"
  by (simp add: bigEndian_def upt_rec)

lemma Deserialize_hex_simps:
  "Deserialize_hex [] = []"
  "Deserialize_hex (b # bs) = hexDigit (unat b div 16) # hexDigit (unat b mod 16) # Deserialize_hex bs"
  by (simp_all add: Deserialize_hex_def)

lemma length_Deserialize_hex: "length (Deserialize_hex bs) = 2 * length bs"
  by (induction bs) (simp_all add: Deserialize_hex_simps)

lemma length_fee_trees:
  "length MAINNET_MINER_FEE_TREE = 210" "length TESTNET_FEE_TREE = 210" "length MINER_FEE_TREE = 210"
  by (simp_all add: MAINNET_MINER_FEE_TREE_def TESTNET_FEE_TREE_def MINER_FEE_TREE_def)

lemma not_fee_tree:
  "length bs \<noteq> 105 \<Longrightarrow> Deserialize_hex bs \<noteq> MAINNET_MINER_FEE_TREE"
  "length bs \<noteq> 105 \<Longrightarrow> Deserialize_hex bs \<noteq> TESTNET_FEE_TREE"
  "length bs \<noteq> 105 \<Longrightarrow> Deserialize_hex bs \<noteq> MINER_FEE_TREE"
  using length_Deserialize_hex [of bs] length_fee_trees by auto

lemma chunked_eval:
  "chunked n [] = []"
  "0 < n \<Longrightarrow> chunked n (x # xs) = take n (x # xs) # chunked n (drop n (x # xs))"
  by (simp_all add: chunked.simps)

lemmas plan_defs = signTxPlan_def sessionPlan_def headerData_def headerP2_def bodyPlan_def
  startTxPlan_def tokenIdsPlan_def inputPlan_def dataInputsPlan_def outputPlan_def startPlan_def
  treePlan_def tokensPlan_def registersPlan_def confirmPlan_def step_def slices_def
  arrayAndChunk_def Serialize_array_def

lemmas codec_defs = Serialize_uint8_def Serialize_uint16_def Serialize_uint32_def Serialize_uint64_def
  uintBE_def bigEndian_eval bigEndian_8 truthy_def firstByte_def hexDigit_def hexValue_def
  Deserialize_hex_simps MAX_PACKET_SIZE_def MAINNET_MINER_FEE_TREE_def TESTNET_FEE_TREE_def
  MINER_FEE_TREE_def

lemma plan_tx0:
  "signTxPlan dev0 ext0 tx0 ''m'' 0 None tr = map Inr cmds0"
  "signTxPlan devR ext0 tx0 ''m'' 0 None tr = map Inr cmds0"
  by (simp_all add: plan_defs codec_defs dev0_def devR_def ext0_def tx0_def chunked_eval
      Let_def cmds0_def)

lemma planSent_accepting: "accepting device \<Longrightarrow> planSent device tr (map Inr cmds) = cmds"
  by (induction cmds arbitrary: tr) (simp_all add: accepting_def)

lemma accepting_dev0: "accepting dev0"
  by (simp add: accepting_def dev0_def RETURN_CODE_OK_def)

lemma sent_tx0_dev0: "sent (signTx dev0 ext0 tx0 ''m'' 0 None) [] = cmds0"
  by (simp add: sent_signTx plan_tx0 planSent_accepting accepting_dev0)



lemma planError_concat: "\<forall>p \<in> set ps. planError p = None \<Longrightarrow> planError (concat ps) = None"
  by (induction ps) (simp_all add: planError_append)

lemma planError_slices [simp]: "planError (slices device a b d) = None"
  by (simp add: slices_def)

lemma planSent_all:
  "accepting device \<Longrightarrow> planError plan = None \<Longrightarrow>
   planSent device tr plan = cmdsOf plan \<and> planOutcome device tr plan = Inr ()"
  using planOutcome_accepting [of device tr plan] planOutcome_success [of device tr plan]
  by simp

lemma cmdsOf_inputPlan: "cmdsOf (inputPlan device sid box) = inputCommands device sid box"
  by (simp add: inputPlan_def inputCommands_def cmdsOf_slices)

lemma planError_inputPlan: "planError (inputPlan device sid box) = None"
  by (simp add: inputPlan_def planError_append)

lemma planError_inputs: "planError (concat (map (inputPlan device sid) boxes)) = None"
  by (rule planError_concat) (simp add: planError_inputPlan)

lemma cmdsOf_inputs:
  "cmdsOf (concat (map (inputPlan device sid) boxes)) = concat (map (inputCommands device sid) boxes)"
  by (simp add: cmdsOf_concat comp_def cmdsOf_inputPlan)

lemma chunked_nonempty: "0 < n \<Longrightarrow> xs \<noteq> [] \<Longrightarrow> chunked n xs \<noteq> []"
  by (subst chunked.simps) simp

lemma chunked_concat: "0 < n \<Longrightarrow> concat (chunked n xs) = xs"
proof (induction n xs rule: chunked.induct)
  case (1 n xs)
  show ?case
  proof (cases "xs = []")
    case True
    then show ?thesis by simp
  next
    case False
    with 1 have "concat (chunked n (drop n xs)) = drop n xs" by simp
    with False 1(2) show ?thesis
      by (subst chunked.simps) simp
  qed
qed

lemma chunked_size: "g \<in> set (chunked n xs) \<Longrightarrow> g \<noteq> [] \<and> length g \<le> n"
proof (induction n xs rule: chunked.induct)
  case (1 n xs)
  show ?case
  proof (cases "n = 0 \<or> xs = []")
    case True
    with 1(2) show ?thesis by (simp add: chunked.simps [of n xs])
  next
    case False
    with 1(2) have "g = take n xs \<or> g \<in> set (chunked n (drop n xs))"
      by (simp add: chunked.simps [of n xs])
    then show ?thesis
    proof
      assume "g = take n xs"
      with False show ?thesis by simp
    next
      assume "g \<in> set (chunked n (drop n xs))"
      with 1(1) False show ?thesis by simp
    qed
  qed
qed

lemma concat_arrayAndChunk:
  "0 < n \<Longrightarrow> concat (arrayAndChunk items n encode) = concat (map encode items)"
proof -
  assume n: "0 < n"
  have "concat (map (\<lambda>batch. concat (map encode batch)) bs) = concat (map encode (concat bs))" for bs
    by (induction bs) simp_all
  then show ?thesis
    by (simp add: arrayAndChunk_def chunked_concat [OF n])
qed

lemma planError_tokenIds: "planError (tokenIdsPlan sid ids) = None"
  by (simp add: tokenIdsPlan_def)

lemma planError_dataInputs: "planError (dataInputsPlan sid ids) = None"
  by (simp add: dataInputsPlan_def)





lemma planSent_sessionPlan_first:
  "planSent device tr (sessionPlan device tr (Inr d) b body) \<noteq> [] \<and>
   hd (planSent device tr (sessionPlan device tr (Inr d) b body)) = apdu SIGN_TX P1_START_SIGNING b d"
  by (simp add: sessionPlan_def)

lemma sent_header:
  assumes m: "m = await (lift r) (\<lambda>d. await (Device_send device SIGN_TX P1_START_SIGNING b d)
              (\<lambda>response. ret (firstByte (data response))))"
  shows "sent m tr = (case r of Inl e \<Rightarrow> [] | Inr d \<Rightarrow> [apdu SIGN_TX P1_START_SIGNING b d])"
proof (cases r)
  case (Inl e)
  with m show ?thesis by (simp add: sent_def throw_apply)
next
  case (Inr d)
  with m show ?thesis
    by (simp add: sent_def await_def Device_send_def Let_def ret_def)
qed

lemma headerData_eval:
  "bip32Path ext signPath = Inr pathBytes \<Longrightarrow>
   truthy authToken \<longrightarrow> 0 \<le> the authToken \<and> the authToken < 2 ^ 32 \<Longrightarrow>
   headerData ext signPath authToken =
     Inr (pathBytes @ (if truthy authToken then bigEndian 4 (the authToken) else []))"
  by (simp add: headerData_def Serialize_uint32_def uintBE_def)

lemma headerData_erg_eval:
  "bip32Path ext signPath = Inr pathBytes \<Longrightarrow>
   truthy authToken \<longrightarrow> 0 \<le> the authToken \<and> the authToken < 2 ^ 32 \<Longrightarrow> network < 256 \<Longrightarrow>
   headerData_erg ext network signPath authToken =
     Inr (word_of_nat network # pathBytes @ (if truthy authToken then bigEndian 4 (the authToken) else []))"
  by (simp add: headerData_erg_def Serialize_uint32_def Serialize_uint8_def uintBE_def bigEndian_eval)

lemma length_bigEndian [simp]: "length (bigEndian k v) = k"
  by (simp add: bigEndian_def)



lemma planError_step: "planError [step a b r] = None \<longleftrightarrow> (\<exists>d. r = Inr d)"
  by (cases r) (simp_all add: step_def)













lemma miner_fee_tree_eq: "MINER_FEE_TREE = MAINNET_MINER_FEE_TREE"
  by (simp add: MAINNET_MINER_FEE_TREE_def MINER_FEE_TREE_def)




lemma sendOutputs_Cons:
  "sendOutputs device ext sid (box # boxes) cm ids network =
   await (sendOutputs device ext sid [box] cm ids network)
     (\<lambda>_. sendOutputs device ext sid boxes cm ids network)"
  by (simp add: sendOutputs_plan perform_append [symmetric])

lemma sendOutputs_erg_Cons:
  "sendOutputs_erg device ext sid (box # boxes) cm ids =
   await (sendOutputs_erg device ext sid [box] cm ids)
     (\<lambda>_. sendOutputs_erg device ext sid boxes cm ids)"
  by (simp add: sendOutputs_erg_plan perform_append [symmetric])










lemma uintBE_Inr: "uintBE k v = Inr b \<longleftrightarrow> 0 \<le> v \<and> v < 2 ^ (8 * k) \<and> b = bigEndian k v"
  by (auto simp: uintBE_def)

lemma uintBE_Inl: "uintBE k v = Inl e \<Longrightarrow> e = RangeError"
  by (auto simp: uintBE_def split: if_splits)

lemma Buffer_concat_Inl: "Buffer_concat ps = Inl e \<Longrightarrow> Inl e \<in> set ps"
  by (induction ps) (auto split: sum.splits)












lemma errCtx_decomp:
  "errCtx prev (map Inr s @ Inl e # post) = Some (e, if s = [] then prev else Some (last s))"
  by (induction s arbitrary: prev) simp_all

lemma errCtx_append:
  "errCtx prev (p @ q) =
     (case errCtx prev p of Some r \<Rightarrow> Some r
      | None \<Rightarrow> errCtx (if cmdsOf p = [] then prev else Some (last (cmdsOf p))) q)"
proof (induction p arbitrary: prev)
  case Nil
  show ?case by simp
next
  case (Cons s ss)
  show ?case
  proof (cases s)
    case (Inl e)
    then show ?thesis by simp
  next
    case (Inr a)
    then show ?thesis by (simp add: Cons.IH split: option.splits)
  qed
qed

lemma cpSafe_append: "cpSafe p \<Longrightarrow> cpSafe q \<Longrightarrow> cpSafe (p @ q)"
  unfolding cpSafe_def errCtx_append by (auto split: option.splits)

lemma cpSafe_concat: "\<forall>p \<in> set ps. cpSafe p \<Longrightarrow> cpSafe (concat ps)"
  by (induction ps) (simp_all add: cpSafe_append, simp add: cpSafe_def)

lemma errCtx_map_Inr [simp]: "errCtx prev (map (\<lambda>x. Inr (f x)) xs) = None"
  by (induction xs arbitrary: prev) simp_all

lemma cpSafe_Inrs: "cpSafe (map (\<lambda>x. Inr (f x)) xs)"
  by (simp add: cpSafe_def)

lemma cpSafe_slices: "cpSafe (slices device a b d)"
  unfolding slices_def by (rule cpSafe_Inrs)

lemma cpSafe_step: "r \<noteq> Inl ChangePathNotPresent \<Longrightarrow> cpSafe [step a b r]"
  by (cases r) (auto simp: cpSafe_def step_def)

lemma Serialize_uint_not_cp:
  "Serialize_uint8 v \<noteq> Inl ChangePathNotPresent" "Serialize_uint16 v \<noteq> Inl ChangePathNotPresent"
  "Serialize_uint32 v \<noteq> Inl ChangePathNotPresent" "Serialize_uint64 v \<noteq> Inl ChangePathNotPresent"
  by (auto simp: Serialize_uint8_def Serialize_uint16_def Serialize_uint32_def Serialize_uint64_def
      dest: uintBE_Inl)

lemma Buffer_concat_not_cp:
  "\<forall>p \<in> set ps. p \<noteq> Inl ChangePathNotPresent \<Longrightarrow> Buffer_concat ps \<noteq> Inl ChangePathNotPresent"
  by (auto dest: Buffer_concat_Inl)

lemma cpSafe_startTx: "cpSafe (startTxPlan sid tx n)"
  unfolding startTxPlan_def
  by (rule cpSafe_step, rule Buffer_concat_not_cp) (simp add: Serialize_uint_not_cp)

lemma cpSafe_tokenIds: "cpSafe (tokenIdsPlan sid ids)"
  unfolding tokenIdsPlan_def by (rule cpSafe_Inrs)

lemma cpSafe_input: "cpSafe (inputPlan device sid box)"
  unfolding inputPlan_def
  by (intro cpSafe_append cpSafe_Inrs) (simp add: cpSafe_slices, simp add: cpSafe_def)

lemma cpSafe_dataInputs: "cpSafe (dataInputsPlan sid ids)"
  unfolding dataInputsPlan_def by (rule cpSafe_Inrs)

lemma cpSafe_tokens: "cpSafe (tokensPlan sid strs box)"
proof (cases "0 < length (tokens box)")
  case False
  then show ?thesis by (simp add: tokensPlan_def cpSafe_def)
next
  case True
  have e: "Buffer_concat [Serialize_uint32 (indexOf strs (tokenId t)), Serialize_uint64 (amount t)] \<noteq>
      Inl ChangePathNotPresent" for t
    by (rule Buffer_concat_not_cp) (simp add: Serialize_uint_not_cp)
  have "Serialize_array (tokens box) (\<lambda>t. Buffer_concat
      [Serialize_uint32 (indexOf strs (tokenId t)), Serialize_uint64 (amount t)]) \<noteq>
      Inl ChangePathNotPresent"
    unfolding Serialize_array_def
    by (rule Buffer_concat_not_cp) (use e in \<open>auto simp del: Buffer_concat.simps\<close>)
  from cpSafe_step [OF this] True show ?thesis
    by (simp add: tokensPlan_def)
qed

lemma cpSafe_registers: "cpSafe (registersPlan device sid box)"
  by (simp add: registersPlan_def cpSafe_slices) (simp add: cpSafe_def)

lemma cpSafe_start_tree: "cpSafe (startPlan sid box @ treePlan device ext sid cm network box)"
proof -
  let ?r = "Buffer_concat
           [Serialize_uint64 (boxValue box),
            Serialize_uint32 (int (length (ergoTree box))),
            Serialize_uint32 (creationHeight box),
            Serialize_uint8 (int (length (tokens box))),
            Serialize_uint32 (int (length (registers box)))]"
  have r: "?r \<noteq> Inl ChangePathNotPresent"
    by (rule Buffer_concat_not_cp) (simp add: Serialize_uint_not_cp)
  show ?thesis
  proof (cases ?r)
    case (Inl e)
    with r show ?thesis
      by (simp add: cpSafe_def startPlan_def step_def)
  next
    case (Inr d)
    then show ?thesis
      by (auto simp: cpSafe_def startPlan_def step_def treePlan_def Let_def slices_def
          split: if_splits sum.splits)
  qed
qed

lemma cpSafe_output: "cpSafe (outputPlan device ext sid cm ids network box)"
  unfolding outputPlan_def append_assoc [symmetric]
  by (intro cpSafe_append cpSafe_start_tree cpSafe_tokens cpSafe_registers)

lemma cpSafe_confirm: "cpSafe (confirmPlan sid)"
  by (simp add: confirmPlan_def cpSafe_def)

lemma cpSafe_body: "cpSafe (bodyPlan device ext sid tx network)"
  unfolding bodyPlan_def
  by (intro cpSafe_append cpSafe_concat cpSafe_startTx cpSafe_tokenIds cpSafe_dataInputs
      cpSafe_confirm)
    (simp_all add: cpSafe_input cpSafe_output)

lemma plan_txNoPath:
  "signTxPlan dev0 ext0 txNoPath ''m'' 0 None tr =
     map Inr (take 7 cmds0) @ Inl ChangePathNotPresent # map Inr (drop 8 cmds0)"
  by (simp add: plan_defs codec_defs dev0_def ext0_def tx0_def txNoPath_def chunked_eval
      Let_def cmds0_def)

lemma plan_txNoToken:
  "signTxPlan dev0 ext0 txNoToken ''m'' 0 None tr =
     map Inr (take 8 cmds0) @ Inl RangeError # map Inr (drop 9 cmds0)"
  by (simp add: plan_defs codec_defs dev0_def ext0_def tx0_def txNoToken_def chunked_eval
      Let_def cmds0_def)

lemma planSent_accepting_error:
  "accepting device \<Longrightarrow> planSent device tr (map Inr cmds @ Inl e # post) = cmds"
  by (induction cmds arbitrary: tr) (simp_all add: accepting_def)

lemma planOutcome_accepting_error:
  "accepting device \<Longrightarrow> planOutcome device tr (map Inr cmds @ Inl e # post) = Inl e"
  by (induction cmds arbitrary: tr) (simp_all add: accepting_def)

lemma outcome_signTx_Inl:
  "outcome (signTx device ext tx signPath network authToken) tr = Inl e \<longleftrightarrow>
   planOutcome device tr (signTxPlan device ext tx signPath network authToken tr) = Inl e"
  unfolding outcome_signTx [symmetric] by (simp add: map_sum_Inl_iff)

lemma headerData_not_cp:
  "bip32Path ext signPath = Inr pathBytes \<Longrightarrow> headerData ext signPath authToken \<noteq> Inl ChangePathNotPresent"
  unfolding headerData_def
  by (rule Buffer_concat_not_cp) (simp add: Serialize_uint_not_cp)

lemma change_path_error_context:
  assumes p: "bip32Path ext signPath = Inr pathBytes"
    and o: "outcome (signTx device ext tx signPath network authToken) tr = Inl ChangePathNotPresent"
  shows "sent (signTx device ext tx signPath network authToken) tr \<noteq> [] \<and>
         p1 (last (sent (signTx device ext tx signPath network authToken) tr)) = P1_ADD_OUTPUT_BOX_START"
proof -
  let ?plan = "signTxPlan device ext tx signPath network authToken tr"
  let ?sent = "sent (signTx device ext tx signPath network authToken) tr"
  from o have po: "planOutcome device tr ?plan = Inl ChangePathNotPresent"
    by (simp add: outcome_signTx_Inl)
  from planOutcome_error [OF po] obtain post
    where d: "?plan = map Inr ?sent @ Inl ChangePathNotPresent # post"
    by (auto simp: sent_signTx)
  have c: "errCtx None ?plan = Some (ChangePathNotPresent, if ?sent = [] then None else Some (last ?sent))"
    by (subst d) (rule errCtx_decomp)
  show ?thesis
  proof (cases "headerData ext signPath authToken")
    case (Inl e)
    with po headerData_not_cp [OF p, of authToken] show ?thesis
      by (simp add: signTxPlan_def sessionPlan_def)
  next
    case (Inr hd)
    let ?h = "apdu SIGN_TX P1_START_SIGNING (headerP2 authToken) hd"
    let ?sid = "firstByte (data (reply device (tr @ [?h])))"
    from Inr c have "errCtx (Some ?h) (bodyPlan device ext ?sid tx network) =
        Some (ChangePathNotPresent, if ?sent = [] then None else Some (last ?sent))"
      by (simp add: signTxPlan_def sessionPlan_def)
    with cpSafe_body [of device ext ?sid tx network] show ?thesis
      unfolding cpSafe_def by (auto split: if_splits)
  qed
qed

lemma all_accepted:
  assumes "outcome (signTx device ext tx signPath network authToken) tr = Inl e" "\<forall>c. e \<noteq> DeviceError c"
    and "n < length (sent (signTx device ext tx signPath network authToken) tr)"
  shows "returnCode (reply device (tr @ take (Suc n) (sent (signTx device ext tx signPath network authToken) tr))) =
         RETURN_CODE_OK"
proof (rule ccontr)
  assume "returnCode (reply device (tr @ take (Suc n) (sent (signTx device ext tx signPath network authToken) tr))) \<noteq>
         RETURN_CODE_OK"
  from planSent_abort [OF assms(3) [unfolded sent_signTx] this [unfolded sent_signTx]] assms(1,2)
  show False by (auto simp: outcome_signTx_Inl)
qed

lemma deriveAddress_errors:
  "outcome (sendDeriveAddress device pathToArray network derivationPath returnType authToken) tr = Inl e \<Longrightarrow>
   \<forall>c. e \<noteq> DeviceError c \<Longrightarrow>
   sent (sendDeriveAddress device pathToArray network derivationPath returnType authToken) tr = []"
  by (auto simp: sendDeriveAddress_def outcome_def sent_def await_def lift_def throw_def ret_def
      Device_send_def Let_def split: sum.splits if_splits prod.splits)

lemma deriveAddress_short:
  "pathToArray derivationPath = Inr pathArray \<Longrightarrow> length pathArray < 5 \<Longrightarrow>
   outcome (sendDeriveAddress device pathToArray network derivationPath returnType authToken) tr =
     Inl (InvalidPathLength (length pathArray)) \<and>
   sent (sendDeriveAddress device pathToArray network derivationPath returnType authToken) tr = []"
  by (simp add: sendDeriveAddress_def outcome_def sent_def throw_apply)

lemma deriveAddress_change:
  "pathToArray derivationPath = Inr pathArray \<Longrightarrow> 5 \<le> length pathArray \<Longrightarrow>
   pathArray ! 3 \<noteq> 0 \<Longrightarrow> pathArray ! 3 \<noteq> 1 \<Longrightarrow>
   outcome (sendDeriveAddress device pathToArray network derivationPath returnType authToken) tr =
     Inl (InvalidChangePath (pathArray ! 3)) \<and>
   sent (sendDeriveAddress device pathToArray network derivationPath returnType authToken) tr = []"
  by (simp add: sendDeriveAddress_def outcome_def sent_def throw_apply CHANGE_PATH_INDEX_def
      ALLOWED_CHANGE_PATHS_def Let_def)

lemma header_first:
  assumes "bip32Path ext signPath = Inr pathBytes"
    and "truthy authToken \<longrightarrow> 0 \<le> the authToken \<and> the authToken < 2 ^ 32"
  shows "sent (signTx device ext tx signPath network authToken) tr \<noteq> [] \<and>
         p1 (hd (sent (signTx device ext tx signPath network authToken) tr)) = P1_START_SIGNING"
  by (simp add: sent_signTx signTxPlan_def headerData_eval [OF assms] planSent_sessionPlan_first
      apdu_def)

lemma header_first_erg:
  assumes "bip32Path ext signPath = Inr pathBytes"
    and "truthy authToken \<longrightarrow> 0 \<le> the authToken \<and> the authToken < 2 ^ 32"
    and "network < 256"
  shows "sent (signTx_erg device ext tx signPath network authToken) tr \<noteq> [] \<and>
         p1 (hd (sent (signTx_erg device ext tx signPath network authToken) tr)) = P1_START_SIGNING"
  by (simp add: sent_signTx_erg signTxPlan_erg_def headerData_erg_eval [OF assms]
      planSent_sessionPlan_first apdu_def)

lemma sent_txNoPath: "sent (signTx dev0 ext0 txNoPath ''m'' 0 None) [] = take 7 cmds0"
  by (simp only: sent_signTx plan_txNoPath planSent_accepting_error [OF accepting_dev0])

lemma outcome_txNoPath:
  "outcome (signTx dev0 ext0 txNoPath ''m'' 0 None) [] = Inl ChangePathNotPresent"
  by (simp only: outcome_signTx_Inl plan_txNoPath planOutcome_accepting_error [OF accepting_dev0])

lemma sent_txNoToken: "sent (signTx dev0 ext0 txNoToken ''m'' 0 None) [] = take 8 cmds0"
  by (simp only: sent_signTx plan_txNoToken planSent_accepting_error [OF accepting_dev0])

lemma outcome_txNoToken:
  "outcome (signTx dev0 ext0 txNoToken ''m'' 0 None) [] = Inl RangeError"
  by (simp only: outcome_signTx_Inl plan_txNoToken planOutcome_accepting_error [OF accepting_dev0])

lemma length_cmds0: "length cmds0 = 10"
  by (simp add: cmds0_def)



text \<open>
  Claim C10.  \<open>sendInputs\<close> sends, for every attested input in order, one
  add-input-frame command a frame, in the order of the frames, and then the
  context-extension chunks only if the extension is defined and not empty
  (\<open>inputCommands\<close>): what is sent is always a prefix of that list, all of it when the
  run succeeds, and the run succeeds against a device that accepts every command.  Inputs
  whose extension is absent or empty cause no context-extension command, and an
  extension that is present and not empty causes at least one.
\<close>

theorem C10_inputs:
  "prefix (sent (sendInputs device sid boxes) tr) (concat (map (inputCommands device sid) boxes)) \<and>
   (outcome (sendInputs device sid boxes) tr = Inr () \<longrightarrow>
      sent (sendInputs device sid boxes) tr = concat (map (inputCommands device sid) boxes)) \<and>
   (accepting device \<longrightarrow> outcome (sendInputs device sid boxes) tr = Inr ()) \<and>
   ((\<forall>box \<in> set boxes. extension box = None \<or> extension box = Some []) \<longrightarrow>
      (\<forall>a \<in> set (sent (sendInputs device sid boxes) tr).
         p1 a \<noteq> P1_ADD_INPUT_BOX_CONTEXT_EXTENSION_CHUNK)) \<and>
   (0 < MAX_DATA_LENGTH device \<and> extension box \<noteq> None \<and> the (extension box) \<noteq> [] \<longrightarrow>
      (\<exists>a \<in> set (inputCommands device sid box). p1 a = P1_ADD_INPUT_BOX_CONTEXT_EXTENSION_CHUNK))"
proof (intro conjI impI)
  let ?plan = "concat (map (inputPlan device sid) boxes)"
  show pre: "prefix (sent (sendInputs device sid boxes) tr) (concat (map (inputCommands device sid) boxes))"
    using planSent_prefix [of device tr ?plan]
    by (simp add: sendInputs_plan cmdsOf_inputs)
  show "sent (sendInputs device sid boxes) tr = concat (map (inputCommands device sid) boxes)"
    if "outcome (sendInputs device sid boxes) tr = Inr ()"
    using that planOutcome_success [of device tr ?plan]
    by (simp add: sendInputs_plan cmdsOf_inputs)
  show "outcome (sendInputs device sid boxes) tr = Inr ()" if "accepting device"
    using planSent_all [OF that planError_inputs]
    by (simp add: sendInputs_plan)
  show "\<forall>a \<in> set (sent (sendInputs device sid boxes) tr).
          p1 a \<noteq> P1_ADD_INPUT_BOX_CONTEXT_EXTENSION_CHUNK"
    if none: "\<forall>box \<in> set boxes. extension box = None \<or> extension box = Some []"
  proof
    fix a
    assume "a \<in> set (sent (sendInputs device sid boxes) tr)"
    with pre have "a \<in> set (concat (map (inputCommands device sid) boxes))"
      using set_mono_prefix by blast
    then obtain box where "box \<in> set boxes" and "a \<in> set (inputCommands device sid box)"
      by auto
    with none show "p1 a \<noteq> P1_ADD_INPUT_BOX_CONTEXT_EXTENSION_CHUNK"
      by (auto simp: inputCommands_def P1_defs)
  qed
  show "\<exists>a \<in> set (inputCommands device sid box). p1 a = P1_ADD_INPUT_BOX_CONTEXT_EXTENSION_CHUNK"
    if "0 < MAX_DATA_LENGTH device \<and> extension box \<noteq> None \<and> the (extension box) \<noteq> []"
  proof -
    from that obtain c cs where "chunked (MAX_DATA_LENGTH device) (the (extension box)) = c # cs"
      using chunked_nonempty [of "MAX_DATA_LENGTH device" "the (extension box)"]
      by (cases "chunked (MAX_DATA_LENGTH device) (the (extension box))") auto
    with that show ?thesis
      by (auto simp: inputCommands_def)
  qed
qed

text \<open>
  Two inputs against a device that accepts every command and carries two bytes a
  command: the first has two frames and an empty extension, the second one frame and an
  extension of three bytes.
\<close>

theorem C10_inputs_witness:
  "accepting dev0 \<and>
   sent (sendInputs dev0 (Some 7)
      [\<lparr>frames = [\<lparr>buffer = [1]\<rparr>, \<lparr>buffer = [2]\<rparr>], extension = Some []\<rparr>,
       \<lparr>frames = [\<lparr>buffer = [3]\<rparr>], extension = Some [4, 5, 6]\<rparr>]) [] =
     [apdu SIGN_TX P1_ADD_INPUT_BOX_FRAME (Some 7) [1],
      apdu SIGN_TX P1_ADD_INPUT_BOX_FRAME (Some 7) [2],
      apdu SIGN_TX P1_ADD_INPUT_BOX_FRAME (Some 7) [3],
      apdu SIGN_TX P1_ADD_INPUT_BOX_CONTEXT_EXTENSION_CHUNK (Some 7) [4, 5],
      apdu SIGN_TX P1_ADD_INPUT_BOX_CONTEXT_EXTENSION_CHUNK (Some 7) [6]]"
  using C10_inputs [of dev0 "Some 7"
      "[\<lparr>frames = [\<lparr>buffer = [1]\<rparr>, \<lparr>buffer = [2]\<rparr>], extension = Some []\<rparr>,
        \<lparr>frames = [\<lparr>buffer = [3]\<rparr>], extension = Some [4, 5, 6]\<rparr>]" "[]"]
    accepting_dev0
  by (simp add: inputCommands_def chunked_eval dev0_def)

text \<open>
  Claim C5.  The count-bounded packetizer, called with the constant 7 as
  \<open>sendDistinctTokensIds\<close> and \<open>sendDataInputs\<close> call it: the packets are the
  encodings of batches of whole items, the batches in order make up the list and none
  has more than 7 items or is empty; the packets concatenated are the encoded items
  concatenated; an empty list gives no packet.  Both functions send one command a packet
  (a prefix of them when the device rejects one), and none for an empty list.
\<close>

theorem C5_packets:
  "(\<exists>batches. arrayAndChunk items MAX_PACKET_SIZE encode =
        map (\<lambda>batch. concat (map encode batch)) batches \<and>
      concat batches = items \<and> (\<forall>batch \<in> set batches. batch \<noteq> [] \<and> length batch \<le> 7)) \<and>
   concat (arrayAndChunk items MAX_PACKET_SIZE encode) = concat (map encode items) \<and>
   arrayAndChunk [] MAX_PACKET_SIZE encode = [] \<and>
   prefix (sent (sendDistinctTokensIds device sid ids) tr)
     (map (apdu SIGN_TX P1_ADD_TOKEN_IDS sid) (arrayAndChunk ids MAX_PACKET_SIZE (\<lambda>i. i))) \<and>
   (outcome (sendDistinctTokensIds device sid ids) tr = Inr () \<longrightarrow>
      sent (sendDistinctTokensIds device sid ids) tr =
      map (apdu SIGN_TX P1_ADD_TOKEN_IDS sid) (arrayAndChunk ids MAX_PACKET_SIZE (\<lambda>i. i))) \<and>
   prefix (sent (sendDataInputs device sid boxIds) tr)
     (map (apdu SIGN_TX P1_ADD_DATA_INPUTS sid) (arrayAndChunk boxIds MAX_PACKET_SIZE Serialize_hex)) \<and>
   (outcome (sendDataInputs device sid boxIds) tr = Inr () \<longrightarrow>
      sent (sendDataInputs device sid boxIds) tr =
      map (apdu SIGN_TX P1_ADD_DATA_INPUTS sid) (arrayAndChunk boxIds MAX_PACKET_SIZE Serialize_hex)) \<and>
   sent (sendDistinctTokensIds device sid []) tr = [] \<and>
   sent (sendDataInputs device sid []) tr = []"
proof (intro conjI impI)
  show "\<exists>batches. arrayAndChunk items MAX_PACKET_SIZE encode =
        map (\<lambda>batch. concat (map encode batch)) batches \<and>
      concat batches = items \<and> (\<forall>batch \<in> set batches. batch \<noteq> [] \<and> length batch \<le> 7)"
  proof (intro exI conjI ballI)
    show "arrayAndChunk items MAX_PACKET_SIZE encode =
        map (\<lambda>batch. concat (map encode batch)) (chunked 7 items)"
      by (simp add: arrayAndChunk_def MAX_PACKET_SIZE_def)
    show "concat (chunked 7 items) = items"
      by (simp add: chunked_concat)
    show "batch \<noteq> []" "length batch \<le> 7" if "batch \<in> set (chunked 7 items)" for batch
      using chunked_size [OF that] by simp_all
  qed
  show "concat (arrayAndChunk items MAX_PACKET_SIZE encode) = concat (map encode items)"
    by (simp add: concat_arrayAndChunk MAX_PACKET_SIZE_def)
  show "arrayAndChunk [] MAX_PACKET_SIZE encode = []"
    by (simp add: arrayAndChunk_def)
  have tok: "cmdsOf (tokenIdsPlan sid ids) =
      map (apdu SIGN_TX P1_ADD_TOKEN_IDS sid) (arrayAndChunk ids MAX_PACKET_SIZE (\<lambda>i. i))" for ids
    by (simp add: tokenIdsPlan_def)
  have dat: "cmdsOf (dataInputsPlan sid boxIds) =
      map (apdu SIGN_TX P1_ADD_DATA_INPUTS sid) (arrayAndChunk boxIds MAX_PACKET_SIZE Serialize_hex)"
    for boxIds
    by (simp add: dataInputsPlan_def)
  show "prefix (sent (sendDistinctTokensIds device sid ids) tr)
     (map (apdu SIGN_TX P1_ADD_TOKEN_IDS sid) (arrayAndChunk ids MAX_PACKET_SIZE (\<lambda>i. i)))"
    using planSent_prefix [of device tr "tokenIdsPlan sid ids"]
    by (simp add: sendDistinctTokensIds_plan tok)
  show "sent (sendDistinctTokensIds device sid ids) tr =
      map (apdu SIGN_TX P1_ADD_TOKEN_IDS sid) (arrayAndChunk ids MAX_PACKET_SIZE (\<lambda>i. i))"
    if "outcome (sendDistinctTokensIds device sid ids) tr = Inr ()"
    using that planOutcome_success [of device tr "tokenIdsPlan sid ids"]
    by (simp add: sendDistinctTokensIds_plan tok)
  show "prefix (sent (sendDataInputs device sid boxIds) tr)
     (map (apdu SIGN_TX P1_ADD_DATA_INPUTS sid) (arrayAndChunk boxIds MAX_PACKET_SIZE Serialize_hex))"
    using planSent_prefix [of device tr "dataInputsPlan sid boxIds"]
    by (simp add: sendDataInputs_plan dat)
  show "sent (sendDataInputs device sid boxIds) tr =
      map (apdu SIGN_TX P1_ADD_DATA_INPUTS sid) (arrayAndChunk boxIds MAX_PACKET_SIZE Serialize_hex)"
    if "outcome (sendDataInputs device sid boxIds) tr = Inr ()"
    using that planOutcome_success [of device tr "dataInputsPlan sid boxIds"]
    by (simp add: sendDataInputs_plan dat)
  show "sent (sendDistinctTokensIds device sid []) tr = []"
    using planSent_prefix [of device tr "tokenIdsPlan sid []"]
    by (simp add: sendDistinctTokensIds_plan tok arrayAndChunk_def del: perform.simps)
  show "sent (sendDataInputs device sid []) tr = []"
    using planSent_prefix [of device tr "dataInputsPlan sid []"]
    by (simp add: sendDataInputs_plan dat arrayAndChunk_def del: perform.simps)
qed

text \<open>Eight token ids of one byte each make two packets, of seven ids and of one.\<close>

theorem C5_packets_witness:
  "arrayAndChunk [[1], [2], [3], [4], [5], [6], [7], [8 :: byte]] MAX_PACKET_SIZE (\<lambda>i. i) =
     [[1, 2, 3, 4, 5, 6, 7], [8]] \<and>
   sent (sendDistinctTokensIds dev0 (Some 7) [[1], [2], [3], [4], [5], [6], [7], [8]]) [] =
     [apdu SIGN_TX P1_ADD_TOKEN_IDS (Some 7) [1, 2, 3, 4, 5, 6, 7],
      apdu SIGN_TX P1_ADD_TOKEN_IDS (Some 7) [8]]"
proof -
  have a: "arrayAndChunk [[1], [2], [3], [4], [5], [6], [7], [8 :: byte]] MAX_PACKET_SIZE (\<lambda>i. i) =
     [[1, 2, 3, 4, 5, 6, 7], [8]]"
    by (simp add: arrayAndChunk_def MAX_PACKET_SIZE_def chunked_eval)
  have "outcome (sendDistinctTokensIds dev0 (Some 7) [[1], [2], [3], [4], [5], [6], [7], [8]]) [] = Inr ()"
    using planSent_all [OF accepting_dev0 planError_tokenIds]
    by (simp add: sendDistinctTokensIds_plan)
  with a show ?thesis
    using C5_packets [of "[[1], [2], [3], [4], [5], [6], [7], [8 :: byte]]" "\<lambda>i. i" dev0 "Some 7"
        "[[1], [2], [3], [4], [5], [6], [7], [8]]" "[]" "[]"]
    by simp
qed

text \<open>
  Claim C6.  \<open>sendHeader\<close> returns the first byte of the response to the start-signing
  command (\<open>firstByte\<close>; nothing when the response is empty), in both variants.  In every
  run of \<open>signTx\<close>, against any device, the first command sent is start-signing and
  every later command is a command of the session (start-transaction, token ids, input
  frames, extension chunks, data inputs, the commands of the outputs, confirm-and-sign)
  that carries as \<open>p2\<close> that first byte of the response to the first command.
\<close>

theorem C6_session_id:
  "(\<forall>s. outcome (sendHeader device ext signPath authToken) tr = Inr s \<longrightarrow>
      s = firstByte (data (reply device (tr @ sent (sendHeader device ext signPath authToken) tr)))) \<and>
   (\<forall>s. outcome (sendHeader_erg device ext network signPath authToken) tr = Inr s \<longrightarrow>
      s = firstByte (data (reply device
            (tr @ sent (sendHeader_erg device ext network signPath authToken) tr)))) \<and>
   (sent (signTx device ext tx signPath network authToken) tr \<noteq> [] \<longrightarrow>
      p1 (hd (sent (signTx device ext tx signPath network authToken) tr)) = P1_START_SIGNING) \<and>
   (\<forall>a \<in> set (tl (sent (signTx device ext tx signPath network authToken) tr)).
      p1 a \<in> bodyCodes \<and>
      p2 a = firstByte (data (reply device
               (tr @ [hd (sent (signTx device ext tx signPath network authToken) tr)])))) \<and>
   (sent (signTx_erg device ext tx' signPath network authToken) tr \<noteq> [] \<longrightarrow>
      p1 (hd (sent (signTx_erg device ext tx' signPath network authToken) tr)) = P1_START_SIGNING) \<and>
   (\<forall>a \<in> set (tl (sent (signTx_erg device ext tx' signPath network authToken) tr)).
      p1 a \<in> bodyCodes \<and>
      p2 a = firstByte (data (reply device
               (tr @ [hd (sent (signTx_erg device ext tx' signPath network authToken) tr)]))))"
proof -
  have hdr: "s = firstByte (data (reply device (tr @ sent m tr)))"
    if m: "m = await (lift r) (\<lambda>d. await (Device_send device SIGN_TX P1_START_SIGNING b d)
              (\<lambda>response. ret (firstByte (data response))))"
      and s: "outcome m tr = Inr s" for m r b s
  proof (cases r)
    case (Inl e)
    with m s show ?thesis by (simp add: outcome_def throw_apply)
  next
    case (Inr d)
    with m s show ?thesis
      by (auto simp: outcome_def sent_def await_def Device_send_def Let_def ret_def
          split: if_splits)
  qed
  have 1: "\<forall>s. outcome (sendHeader device ext signPath authToken) tr = Inr s \<longrightarrow>
      s = firstByte (data (reply device (tr @ sent (sendHeader device ext signPath authToken) tr)))"
    using hdr [OF sendHeader_def] by blast
  have 2: "\<forall>s. outcome (sendHeader_erg device ext network signPath authToken) tr = Inr s \<longrightarrow>
      s = firstByte (data (reply device
            (tr @ sent (sendHeader_erg device ext network signPath authToken) tr)))"
    using hdr [OF sendHeader_erg_def] by blast
  have ses: "(cmds \<noteq> [] \<longrightarrow> p1 (hd cmds) = P1_START_SIGNING) \<and>
      (\<forall>a \<in> set (tl cmds). p1 a \<in> bodyCodes \<and> p2 a = firstByte (data (reply device (tr @ [hd cmds]))))"
    if body: "\<And>sid x. x \<in> set (cmdsOf (body sid)) \<Longrightarrow> cmdWith bodyCodes sid x"
      and cmds: "cmds = planSent device tr (sessionPlan device tr r b body)" for cmds body r b
  proof (cases "cmds = []")
    case True
    then show ?thesis by simp
  next
    case False
    have "prefix cmds (cmdsOf (sessionPlan device tr r b body))"
      unfolding cmds by (rule planSent_prefix)
    from session_p2 [OF body this False] show ?thesis
      by (simp add: cmdWith_def)
  qed
  have a: "(sent (signTx device ext tx signPath network authToken) tr \<noteq> [] \<longrightarrow>
      p1 (hd (sent (signTx device ext tx signPath network authToken) tr)) = P1_START_SIGNING) \<and>
   (\<forall>a \<in> set (tl (sent (signTx device ext tx signPath network authToken) tr)).
      p1 a \<in> bodyCodes \<and>
      p2 a = firstByte (data (reply device
               (tr @ [hd (sent (signTx device ext tx signPath network authToken) tr)]))))"
    by (rule ses [OF body_cmds sent_signTx [unfolded signTxPlan_def]])
  have b: "(sent (signTx_erg device ext tx' signPath network authToken) tr \<noteq> [] \<longrightarrow>
      p1 (hd (sent (signTx_erg device ext tx' signPath network authToken) tr)) = P1_START_SIGNING) \<and>
   (\<forall>a \<in> set (tl (sent (signTx_erg device ext tx' signPath network authToken) tr)).
      p1 a \<in> bodyCodes \<and>
      p2 a = firstByte (data (reply device
               (tr @ [hd (sent (signTx_erg device ext tx' signPath network authToken) tr)]))))"
    by (rule ses [OF body_cmds_erg sent_signTx_erg [unfolded signTxPlan_erg_def]])
  from 1 2 a b show ?thesis by simp
qed

text \<open>
  A session against a device that answers every command with the byte 7: the nine
  commands after start-signing carry 7.
\<close>

theorem C6_session_id_witness:
  "sent (signTx dev0 ext0 tx0 ''m'' 0 None) [] = cmds0 \<and>
   firstByte (data (reply dev0 ([] @ [hd cmds0]))) = Some 7 \<and>
   length (tl cmds0) = 9 \<and>
   set (map p1 (tl cmds0)) \<subseteq> bodyCodes \<and>
   map p2 (tl cmds0) = replicate 9 (Some 7)"
proof -
  have "firstByte (data (reply dev0 ([] @ [hd cmds0]))) = Some 7"
    by (simp add: dev0_def firstByte_def)
  then show ?thesis
    using C6_session_id [of dev0 ext0 "''m''" None "[]" 0 tx0]
    by (simp add: sent_tx0_dev0) (simp add: cmds0_def numeral_eq_Suc)
qed

text \<open>
  Claim C8, as amended.  When the signing path serializes and the auth token, if one is
  used, fits 32 bits, the first command of the session is start-signing with this
  payload: in \<open>erg.ts\<close> the network tag (one byte), the serialized signing path and,
  only when the auth token is given and not 0, the auth token in four bytes; in
  \<open>interactions/signTx.ts\<close> the same without the network tag.  \<open>p2\<close> is
  \<open>WITH_TOKEN\<close> exactly when the token is in the payload, \<open>WITHOUT_TOKEN\<close> otherwise.
\<close>

theorem C8_header:
  assumes "bip32Path ext signPath = Inr pathBytes"
    and "truthy authToken \<longrightarrow> 0 \<le> the authToken \<and> the authToken < 2 ^ 32"
    and "network < 256"
  shows
  "sent (sendHeader_erg device ext network signPath authToken) tr =
     [apdu SIGN_TX P1_START_SIGNING (Some (if truthy authToken then P2_WITH_TOKEN else P2_WITHOUT_TOKEN))
        (word_of_nat network # pathBytes @ (if truthy authToken then bigEndian 4 (the authToken) else []))] \<and>
   hd (sent (signTx_erg device ext tx' signPath network authToken) tr) =
     apdu SIGN_TX P1_START_SIGNING (Some (if truthy authToken then P2_WITH_TOKEN else P2_WITHOUT_TOKEN))
        (word_of_nat network # pathBytes @ (if truthy authToken then bigEndian 4 (the authToken) else [])) \<and>
   sent (sendHeader device ext signPath authToken) tr =
     [apdu SIGN_TX P1_START_SIGNING (Some (if truthy authToken then P2_WITH_TOKEN else P2_WITHOUT_TOKEN))
        (pathBytes @ (if truthy authToken then bigEndian 4 (the authToken) else []))] \<and>
   hd (sent (signTx device ext tx signPath network authToken) tr) =
     apdu SIGN_TX P1_START_SIGNING (Some (if truthy authToken then P2_WITH_TOKEN else P2_WITHOUT_TOKEN))
        (pathBytes @ (if truthy authToken then bigEndian 4 (the authToken) else [])) \<and>
   length (bigEndian 4 (the authToken)) = 4 \<and> P2_WITH_TOKEN \<noteq> P2_WITHOUT_TOKEN"
proof -
  note h = headerData_eval [OF assms(1,2)]
  note he = headerData_erg_eval [OF assms]
  have 1: "sent (sendHeader_erg device ext network signPath authToken) tr =
     [apdu SIGN_TX P1_START_SIGNING (Some (if truthy authToken then P2_WITH_TOKEN else P2_WITHOUT_TOKEN))
        (word_of_nat network # pathBytes @ (if truthy authToken then bigEndian 4 (the authToken) else []))]"
    using sent_header [OF sendHeader_erg_def, of device ext network signPath authToken tr] he
    by (simp add: headerData_erg_def)
  have 2: "sent (sendHeader device ext signPath authToken) tr =
     [apdu SIGN_TX P1_START_SIGNING (Some (if truthy authToken then P2_WITH_TOKEN else P2_WITHOUT_TOKEN))
        (pathBytes @ (if truthy authToken then bigEndian 4 (the authToken) else []))]"
    using sent_header [OF sendHeader_def, of device ext signPath authToken tr] h
    by (simp add: headerData_def)
  have 3: "hd (sent (signTx_erg device ext tx' signPath network authToken) tr) =
     apdu SIGN_TX P1_START_SIGNING (Some (if truthy authToken then P2_WITH_TOKEN else P2_WITHOUT_TOKEN))
        (word_of_nat network # pathBytes @ (if truthy authToken then bigEndian 4 (the authToken) else []))"
    by (simp add: sent_signTx_erg signTxPlan_erg_def he planSent_sessionPlan_first headerP2_def)
  have 4: "hd (sent (signTx device ext tx signPath network authToken) tr) =
     apdu SIGN_TX P1_START_SIGNING (Some (if truthy authToken then P2_WITH_TOKEN else P2_WITHOUT_TOKEN))
        (pathBytes @ (if truthy authToken then bigEndian 4 (the authToken) else []))"
    by (simp add: sent_signTx signTxPlan_def h planSent_sessionPlan_first headerP2_def)
  from 1 2 3 4 show ?thesis
    by (simp add: P2_WITH_TOKEN_def P2_WITHOUT_TOKEN_def)
qed

text \<open>The header of \<open>erg.ts\<close> for network 0, a path that serializes to the byte 1, and the auth token 5.\<close>

theorem C8_header_witness:
  "bip32Path ext0 ''m'' = Inr [1] \<and> truthy (Some 5) \<and>
   sent (sendHeader_erg dev0 ext0 0 ''m'' (Some 5)) [] =
     [apdu SIGN_TX P1_START_SIGNING (Some P2_WITH_TOKEN) [0, 1, 0, 0, 0, 5]] \<and>
   sent (sendHeader dev0 ext0 ''m'' (Some 5)) [] =
     [apdu SIGN_TX P1_START_SIGNING (Some P2_WITH_TOKEN) [1, 0, 0, 0, 5]]"
proof -
  have a: "bip32Path ext0 ''m'' = Inr [1]" by (simp add: ext0_def)
  have b: "truthy (Some (5::int)) \<longrightarrow> 0 \<le> the (Some (5::int)) \<and> the (Some (5::int)) < 2 ^ 32" by simp
  have c: "(0::nat) < 256" by simp
  from C8_header [OF a b c, of dev0 "[]"] a show ?thesis
    by (simp add: truthy_def bigEndian_eval)
qed

text \<open>
  In \<open>interactions/signTx.ts\<close> the payload of start-signing is the serialized path alone,
  whatever the network: a session on network 16 with the path that serializes to the
  byte 1 and no auth token.
\<close>

theorem C8_header_counterexample:
  "bip32Path ext0 ''m'' = Inr [1] \<and>
   sent (signTx dev0 ext0 tx0 ''m'' 16 None) [] \<noteq> [] \<and>
   hd (sent (signTx dev0 ext0 tx0 ''m'' 16 None) []) =
     apdu SIGN_TX P1_START_SIGNING (Some P2_WITHOUT_TOKEN) [1]"
proof -
  have "headerData ext0 ''m'' None = Inr [1]"
    by (simp add: headerData_def ext0_def truthy_def)
  then show ?thesis
    by (simp add: sent_signTx signTxPlan_def planSent_sessionPlan_first headerP2_def truthy_def
        ext0_def)
qed











text \<open>
  Claim C3.  The malformed-input errors of \<open>signTx\<close> are raised in the middle of the
  session, not before it.  Whatever the transaction description, when the signing path and
  the auth token can be encoded, \<open>signTx\<close> sends the start-signing command first (in both
  variants), so an error that comes from the transaction description is raised after
  commands were sent.  When \<open>signTx\<close> of \<open>interactions/signTx.ts\<close> fails because the change
  path is not present, the last command sent is the start of the output box whose tree is
  the change address, and the device accepted every command sent.  Only
  \<open>sendDeriveAddress\<close> raises its input errors (path too short, change component not
  allowed) with nothing sent: an error of \<open>sendDeriveAddress\<close> that is not a device error
  leaves the transcript as it was.
\<close>

theorem C3_malformed_input:
  "(bip32Path ext signPath = Inr pathBytes \<and>
    (truthy authToken \<longrightarrow> 0 \<le> the authToken \<and> the authToken < 2 ^ 32) \<longrightarrow>
      sent (signTx device ext tx signPath network authToken) tr \<noteq> [] \<and>
      p1 (hd (sent (signTx device ext tx signPath network authToken) tr)) = P1_START_SIGNING \<and>
      (network < 256 \<longrightarrow>
        sent (signTx_erg device ext tx' signPath network authToken) tr \<noteq> [] \<and>
        p1 (hd (sent (signTx_erg device ext tx' signPath network authToken) tr)) = P1_START_SIGNING)) \<and>
   (bip32Path ext signPath = Inr pathBytes \<and>
    outcome (signTx device ext tx signPath network authToken) tr = Inl ChangePathNotPresent \<longrightarrow>
      sent (signTx device ext tx signPath network authToken) tr \<noteq> [] \<and>
      p1 (last (sent (signTx device ext tx signPath network authToken) tr)) = P1_ADD_OUTPUT_BOX_START \<and>
      (\<forall>n < length (sent (signTx device ext tx signPath network authToken) tr).
         returnCode (reply device
           (tr @ take (Suc n) (sent (signTx device ext tx signPath network authToken) tr))) =
         RETURN_CODE_OK)) \<and>
   (outcome (sendDeriveAddress device pathToArray network derivationPath returnType authToken) tr = Inl e \<and>
    (\<forall>c. e \<noteq> DeviceError c) \<longrightarrow>
      sent (sendDeriveAddress device pathToArray network derivationPath returnType authToken) tr = []) \<and>
   (pathToArray derivationPath = Inr pathArray \<and> length pathArray < 5 \<longrightarrow>
      outcome (sendDeriveAddress device pathToArray network derivationPath returnType authToken) tr =
        Inl (InvalidPathLength (length pathArray))) \<and>
   (pathToArray derivationPath = Inr pathArray \<and> 5 \<le> length pathArray \<and>
    pathArray ! 3 \<noteq> 0 \<and> pathArray ! 3 \<noteq> 1 \<longrightarrow>
      outcome (sendDeriveAddress device pathToArray network derivationPath returnType authToken) tr =
        Inl (InvalidChangePath (pathArray ! 3)))"
proof (intro conjI)
  show "bip32Path ext signPath = Inr pathBytes \<and>
    (truthy authToken \<longrightarrow> 0 \<le> the authToken \<and> the authToken < 2 ^ 32) \<longrightarrow>
      sent (signTx device ext tx signPath network authToken) tr \<noteq> [] \<and>
      p1 (hd (sent (signTx device ext tx signPath network authToken) tr)) = P1_START_SIGNING \<and>
      (network < 256 \<longrightarrow>
        sent (signTx_erg device ext tx' signPath network authToken) tr \<noteq> [] \<and>
        p1 (hd (sent (signTx_erg device ext tx' signPath network authToken) tr)) = P1_START_SIGNING)"
    using header_first [of ext signPath pathBytes authToken device tx network tr]
      header_first_erg [of ext signPath pathBytes authToken network device tx' tr]
    by blast
  show "bip32Path ext signPath = Inr pathBytes \<and>
    outcome (signTx device ext tx signPath network authToken) tr = Inl ChangePathNotPresent \<longrightarrow>
      sent (signTx device ext tx signPath network authToken) tr \<noteq> [] \<and>
      p1 (last (sent (signTx device ext tx signPath network authToken) tr)) = P1_ADD_OUTPUT_BOX_START \<and>
      (\<forall>n < length (sent (signTx device ext tx signPath network authToken) tr).
         returnCode (reply device
           (tr @ take (Suc n) (sent (signTx device ext tx signPath network authToken) tr))) =
         RETURN_CODE_OK)"
    using change_path_error_context [of ext signPath pathBytes device tx network authToken tr]
      all_accepted [of device ext tx signPath network authToken tr ChangePathNotPresent]
    by simp
  show "outcome (sendDeriveAddress device pathToArray network derivationPath returnType authToken) tr = Inl e \<and>
    (\<forall>c. e \<noteq> DeviceError c) \<longrightarrow>
      sent (sendDeriveAddress device pathToArray network derivationPath returnType authToken) tr = []"
    using deriveAddress_errors [of device pathToArray network derivationPath returnType authToken tr e]
    by blast
  show "pathToArray derivationPath = Inr pathArray \<and> length pathArray < 5 \<longrightarrow>
      outcome (sendDeriveAddress device pathToArray network derivationPath returnType authToken) tr =
        Inl (InvalidPathLength (length pathArray))"
    using deriveAddress_short [of pathToArray derivationPath pathArray device network returnType authToken tr]
    by blast
  show "pathToArray derivationPath = Inr pathArray \<and> 5 \<le> length pathArray \<and>
    pathArray ! 3 \<noteq> 0 \<and> pathArray ! 3 \<noteq> 1 \<longrightarrow>
      outcome (sendDeriveAddress device pathToArray network derivationPath returnType authToken) tr =
        Inl (InvalidChangePath (pathArray ! 3))"
    using deriveAddress_change [of pathToArray derivationPath pathArray device network returnType authToken tr]
    by blast
qed

text \<open>
  The transaction \<open>txNoPath\<close> has one output whose tree is the change address and gives no
  change path: against a device that accepts everything, \<open>signTx\<close> fails with the missing
  change path after the start of the output box.  A path array of three components makes
  \<open>sendDeriveAddress\<close> fail with nothing sent.
\<close>

theorem C3_malformed_input_witness:
  "bip32Path ext0 ''m'' = Inr [1] \<and>
   outcome (signTx dev0 ext0 txNoPath ''m'' 0 None) [] = Inl ChangePathNotPresent \<and>
   sent (signTx dev0 ext0 txNoPath ''m'' 0 None) [] \<noteq> [] \<and>
   p1 (hd (sent (signTx dev0 ext0 txNoPath ''m'' 0 None) [])) = P1_START_SIGNING \<and>
   p1 (last (sent (signTx dev0 ext0 txNoPath ''m'' 0 None) [])) = P1_ADD_OUTPUT_BOX_START \<and>
   returnCode (reply dev0 (take 7 (sent (signTx dev0 ext0 txNoPath ''m'' 0 None) []))) = RETURN_CODE_OK \<and>
   outcome (sendDeriveAddress dev0 (\<lambda>_. Inr [44, 429, 0]) 0 ''m/44/429/0'' Return None) [] =
     Inl (InvalidPathLength 3) \<and>
   sent (sendDeriveAddress dev0 (\<lambda>_. Inr [44, 429, 0]) 0 ''m/44/429/0'' Return None) [] = []"
proof -
  have a: "bip32Path ext0 ''m'' = Inr [1]" by (simp add: ext0_def)
  have t: "truthy None \<longrightarrow> 0 \<le> the None \<and> the None < (2::int) ^ 32" by (simp add: truthy_def)
  have o: "outcome (signTx dev0 ext0 txNoPath ''m'' 0 None) [] = Inl ChangePathNotPresent"
    by (rule outcome_txNoPath)
  have l: "length (sent (signTx dev0 ext0 txNoPath ''m'' 0 None) []) = 7"
    by (simp add: sent_txNoPath length_cmds0)
  have p: "(\<lambda>_::string. Inr [44, 429, 0::nat] :: Error + nat list) ''m/44/429/0'' = Inr [44, 429, 0]"
    by simp
  have s: "length [44, 429, 0::nat] < 5" by simp
  note c = C3_malformed_input [where ext = ext0 and signPath = "''m''" and pathBytes = "[1]"
      and authToken = None and device = dev0 and tx = txNoPath and network = 0 and tr = "[]"
      and pathToArray = "\<lambda>_. Inr [44, 429, 0]" and derivationPath = "''m/44/429/0''"
      and pathArray = "[44, 429, 0]" and returnType = Return and e = "InvalidPathLength 3"]
  from c a t have 1: "sent (signTx dev0 ext0 txNoPath ''m'' 0 None) [] \<noteq> [] \<and>
      p1 (hd (sent (signTx dev0 ext0 txNoPath ''m'' 0 None) [])) = P1_START_SIGNING"
    by blast
  from c a o have 2: "p1 (last (sent (signTx dev0 ext0 txNoPath ''m'' 0 None) [])) = P1_ADD_OUTPUT_BOX_START \<and>
      (\<forall>n < length (sent (signTx dev0 ext0 txNoPath ''m'' 0 None) []).
         returnCode (reply dev0
           ([] @ take (Suc n) (sent (signTx dev0 ext0 txNoPath ''m'' 0 None) []))) =
         RETURN_CODE_OK)"
    by blast
  from 2 l have 3: "returnCode (reply dev0 (take 7 (sent (signTx dev0 ext0 txNoPath ''m'' 0 None) []))) =
      RETURN_CODE_OK"
    by (auto dest: spec [of _ 6])
  from c p s have 4: "outcome (sendDeriveAddress dev0 (\<lambda>_. Inr [44, 429, 0]) 0 ''m/44/429/0'' Return None) [] =
     Inl (InvalidPathLength 3)"
    by simp
  from c 4 have 5: "sent (sendDeriveAddress dev0 (\<lambda>_. Inr [44, 429, 0]) 0 ''m/44/429/0'' Return None) [] = []"
    by blast
  from a o 1 2 3 4 5 show ?thesis by blast
qed

text \<open>
  Against a device that accepts everything, \<open>signTx\<close> on \<open>txNoPath\<close> (a change output, no
  change path) fails with the missing change path after seven commands were sent, and on
  \<open>txNoToken\<close> (an output token whose id is not in the table of distinct ids) it fails
  with the range error of \<open>Serialize.uint32(-1)\<close> after eight commands were sent.
\<close>

theorem C3_malformed_input_counterexample:
  "outcome (signTx dev0 ext0 txNoPath ''m'' 0 None) [] = Inl ChangePathNotPresent \<and>
   sent (signTx dev0 ext0 txNoPath ''m'' 0 None) [] = take 7 cmds0 \<and>
   length (sent (signTx dev0 ext0 txNoPath ''m'' 0 None) []) = 7 \<and>
   outcome (signTx dev0 ext0 txNoToken ''m'' 0 None) [] = Inl RangeError \<and>
   sent (signTx dev0 ext0 txNoToken ''m'' 0 None) [] = take 8 cmds0 \<and>
   length (sent (signTx dev0 ext0 txNoToken ''m'' 0 None) []) = 8"
  by (simp add: outcome_txNoPath sent_txNoPath outcome_txNoToken sent_txNoToken length_cmds0)

end
